theory Spec2Isabelle
  imports Complex_Main "HOL-Library.AList"
begin

section \<open>dcli: the distributed command engine of \<^verbatim>\<open>src/dcli.py\<close>\<close>

text \<open>
  The development embeds the functions of \<^verbatim>\<open>src/dcli.py\<close> that build the host
  list, size the batches, run the per-host pipeline and compute the exit code. Python
  strings are \<^typ>\<open>string\<close> (hosts are taken to be ASCII), Python ints are \<^typ>\<open>int\<close>,
  \<^verbatim>\<open>None\<close> is \<^const>\<open>None\<close>, an exception is the left summand of a sum type.
\<close>

subsection \<open>Python values\<close>

type_synonym host = string

text \<open>The exceptions that \<^verbatim>\<open>main\<close> catches: \<^verbatim>\<open>UsageError\<close>, \<^verbatim>\<open>Error\<close>, \<^verbatim>\<open>IOError\<close>.\<close>

datatype exc = UsageError | Error | IOError

text \<open>Truthiness of an optional string and of an optional list (\<^verbatim>\<open>if x:\<close>).\<close>

fun truthy :: "'a list option \<Rightarrow> bool" where
  "truthy None = False"
| "truthy (Some xs) = (xs \<noteq> [])"

text \<open>
  \<^verbatim>\<open>str.isspace\<close> on the ASCII range: space, tab, line feed, vertical tab, form feed,
  carriage return and the four separators \<^verbatim>\<open>0x1c\<close> to \<^verbatim>\<open>0x1f\<close>.
\<close>

definition is_space :: "char \<Rightarrow> bool" where
  "is_space c = (c \<in> set [CHR '' '', CHR 0x09, CHR 0x0A, CHR 0x0B, CHR 0x0C, CHR 0x0D,
                            CHR 0x1C, CHR 0x1D, CHR 0x1E, CHR 0x1F])"

definition strip :: "string \<Rightarrow> string" where
  "strip s = rev (dropWhile is_space (rev (dropWhile is_space s)))"

definition startswith :: "string \<Rightarrow> string \<Rightarrow> bool" where
  "startswith s p = (take (length p) s = p)"

definition endswith :: "string \<Rightarrow> string \<Rightarrow> bool" where
  "endswith s p = (length p \<le> length s \<and> drop (length s - length p) s = p)"

text \<open>\<^verbatim>\<open>p in s\<close> for strings: \<^verbatim>\<open>p\<close> occurs in \<^verbatim>\<open>s\<close> as a contiguous run.\<close>

fun contains :: "string \<Rightarrow> string \<Rightarrow> bool" where
  "contains [] p = (p = [])"
| "contains (c # cs) p = (startswith (c # cs) p \<or> contains cs p)"

text \<open>
  \<^verbatim>\<open>s.split(d)\<close> for a one-character separator: the result is never empty, and an
  empty field stays (\<^verbatim>\<open>"h1,".split(",") == ["h1", ""]\<close>).
\<close>

fun split :: "char \<Rightarrow> string \<Rightarrow> string list" where
  "split d [] = [[]]"
| "split d (c # cs) =
     (if c = d then [] # split d cs
      else (case split d cs of
              [] \<Rightarrow> [[c]]
            | w # ws \<Rightarrow> (c # w) # ws))"

subsection \<open>\<^verbatim>\<open>buildCellList\<close>\<close>

text \<open>
  The file system is a function from a path to the lines \<^verbatim>\<open>readlines\<close> returns, or
  \<^const>\<open>None\<close> when \<^verbatim>\<open>open\<close> raises \<^verbatim>\<open>IOError\<close>.
\<close>

type_synonym filesystem = "string \<Rightarrow> string list option"

text \<open>The loop over the lines of the host-list file.\<close>

fun file_entries :: "string list \<Rightarrow> host list" where
  "file_entries [] = []"
| "file_entries (line # lines) =
     (let line' = strip line in
      if length line' > 0 \<and> \<not> startswith line' ''#''
      then line' # file_entries lines
      else file_entries lines)"

text \<open>The loop over the inline \<^verbatim>\<open>-c\<close> entries, each split on commas.\<close>

fun inline_entries :: "string list \<Rightarrow> host list" where
  "inline_entries [] = []"
| "inline_entries (cline # clines) = map strip (split CHR '','' cline) @ inline_entries clines"

text \<open>The last loop: \<^verbatim>\<open>if c not in uniqueCellList: uniqueCellList.append(c)\<close>.\<close>

fun unique_loop :: "host list \<Rightarrow> host list \<Rightarrow> host list" where
  "unique_loop uniqueCellList [] = uniqueCellList"
| "unique_loop uniqueCellList (c # cs) =
     unique_loop (if c \<in> set uniqueCellList then uniqueCellList else uniqueCellList @ [c]) cs"

definition group_entries :: "filesystem \<Rightarrow> string option \<Rightarrow> exc + host list" where
  "group_entries fs filename =
     (case filename of
        None \<Rightarrow> Inr []
      | Some f \<Rightarrow>
          if f = [] then Inr []
          else (case fs (strip f) of
                  None \<Rightarrow> Inl Error
                | Some lines \<Rightarrow> Inr (file_entries lines)))"

definition cell_entries :: "string list option \<Rightarrow> host list" where
  "cell_entries cells =
     (case cells of
        None \<Rightarrow> []
      | Some clines \<Rightarrow> if clines = [] then [] else inline_entries clines)"

definition buildCellList :: "filesystem \<Rightarrow> string list option \<Rightarrow> string option \<Rightarrow> exc + host list" where
  "buildCellList fs cells filename =
     (case group_entries fs filename of
        Inl e \<Rightarrow> Inl e
      | Inr celllist \<Rightarrow> Inr (unique_loop [] (celllist @ cell_entries cells)))"

text \<open>
  The spec's words for the result, as a second definition: duplicates are removed and
  every host stays where it was first seen.
\<close>

fun first_seen :: "'a list \<Rightarrow> 'a list" where
  "first_seen [] = []"
| "first_seen (x # xs) = x # filter (\<lambda>y. y \<noteq> x) (first_seen xs)"

text \<open>The position at which a value first occurs in a list (its length when it does not).\<close>

definition first_index :: "'a list \<Rightarrow> 'a \<Rightarrow> nat" where
  "first_index xs x = length (takeWhile (\<lambda>y. y \<noteq> x) xs)"

subsection \<open>\<^verbatim>\<open>update_max_threads\<close>\<close>

text \<open>
  The options \<^verbatim>\<open>optparse\<close> returns, restricted to the fields the embedded functions
  read. \<^verbatim>\<open>file_opt\<close> (the source's \<^verbatim>\<open>options.file\<close>) and \<^verbatim>\<open>exec_file\<close> hold the values after \<^verbatim>\<open>main\<close> has split and
  trimmed them; \<^verbatim>\<open>timeout\<close> is a Python float, a rational here. The \<^verbatim>\<open>--vmstat\<close>
  sampling mode is outside the embedding: \<^verbatim>\<open>options.vmstatOps\<close> is \<^verbatim>\<open>None\<close>.
\<close>

record Options =
  maxThds :: int
  cells :: "string list option"
  ctimeout :: "int option"
  destfile :: "string option"
  file_opt :: "string list option"
  groupfile :: "string option"
  hideStderr :: bool
  pushKey :: bool
  konepw :: bool
  userID :: "string option"
  rootWithExaTmp :: bool
  maxLines :: int
  listNegatives :: bool
  regexp :: "string option"
  serializeOps :: bool
  showBanner :: bool
  list_hosts :: bool
  timeout :: "rat option"
  dropKey :: bool
  exec_file :: "string option"

text \<open>
  \<^verbatim>\<open>update_max_threads\<close>: the descriptor limit is what \<^verbatim>\<open>get_file_descriptor_limit\<close>
  returned (\<^const>\<open>None\<close> when \<^verbatim>\<open>ulimit -n\<close> failed). The result is the returned flag
  and the options after the call.
\<close>

definition FDS_PER_CELL :: int where "FDS_PER_CELL = 7"
definition RESERVED_FDS :: int where "RESERVED_FDS = 10"

definition update_max_threads :: "int option \<Rightarrow> Options \<Rightarrow> bool \<times> Options" where
  "update_max_threads fd_limit options =
     (if maxThds options \<noteq> 0 \<or> serializeOps options then (False, options)
      else (case fd_limit of
              None \<Rightarrow> (False, options)
            | Some limit \<Rightarrow>
                (let max_threads = (limit - RESERVED_FDS) div FDS_PER_CELL in
                 if max_threads < 1 then (False, options)
                 else (True, options\<lparr>maxThds := max_threads\<rparr>))))"

text \<open>
  The lines of \<^verbatim>\<open>main\<close> that call it: \<^verbatim>\<open>if len(clist) > 1 and update_max_threads(options):
  batch = True\<close>. The result is the new \<^verbatim>\<open>batch\<close> flag and the options.
\<close>

definition auto_batch :: "int option \<Rightarrow> host list \<Rightarrow> bool \<Rightarrow> Options \<Rightarrow> bool \<times> Options" where
  "auto_batch fd_limit clist batch options =
     (if length clist > 1
      then (case update_max_threads fd_limit options of
              (True, options') \<Rightarrow> (True, options')
            | (False, options') \<Rightarrow> (batch, options'))
      else (batch, options))"

subsection \<open>Subprocesses and the shared state of \<^verbatim>\<open>copyAndExecute\<close>\<close>

text \<open>
  The stages of \<^verbatim>\<open>WorkThread.run\<close>, in the order of the source: the key push, the
  \<^verbatim>\<open>mkdir\<close> of the destination directory, the \<^verbatim>\<open>scp\<close> copy, the command and the key
  removal. The text of the \<^verbatim>\<open>ssh\<close> and \<^verbatim>\<open>scp\<close> command lines only feeds the spawned
  shell, so a spawn is identified by its pass (0 the main pass, 1 the retry pass), its
  host and its stage.
\<close>

datatype stage = KeyExchange | MakeDestDir | Copy | RunCommand | KeyDrop

text \<open>
  What a subprocess started with \<^verbatim>\<open>subprocess.Popen\<close> does: its return code, the lines
  of its standard output, the lines of the temporary file that captured its standard
  error, and whether \<^verbatim>\<open>communicate\<close> fails to return within \<^verbatim>\<open>options.timeout + 2\<close>
  seconds (read only when a timeout is configured; Python 3.3 or later is assumed).
\<close>

record proc =
  returncode :: int
  stdout :: "string list"
  banner_or_err :: "string list"
  overdue :: bool

text \<open>
  The world outside the program: the outcome of every \<^verbatim>\<open>Popen\<close>, the outcome of every
  \<^verbatim>\<open>subprocess.call\<close> (\<^const>\<open>None\<close> when it raises), and whether
  \<^verbatim>\<open>remove_offending_keys\<close> finds the host or its address in \<^verbatim>\<open>known_hosts\<close>.
  Running out of file descriptors and undecodable output are left out.
\<close>

record world =
  popen :: "nat \<Rightarrow> host \<Rightarrow> stage \<Rightarrow> proc"
  call :: "nat \<Rightarrow> host \<Rightarrow> stage \<Rightarrow> int option"
  able_to_retry :: "host \<Rightarrow> bool"

text \<open>
  The environment of the process: the file system, the descriptor limit, the keys
  \<^verbatim>\<open>checkKeys\<close> finds or generates (empty when it raises \<^verbatim>\<open>Error\<close>), whether
  \<^verbatim>\<open>checkFile\<close> accepts a path, \<^verbatim>\<open>Session.testmode\<close>, whether the \<^verbatim>\<open>ssh\<close> and \<^verbatim>\<open>scp\<close>
  programs exist, and Python's \<^verbatim>\<open>str\<close> of a float.
\<close>

record env =
  disk :: filesystem
  fd_limit :: "int option"
  found_keys :: "string list"
  file_ok :: "string \<Rightarrow> bool \<Rightarrow> bool"
  testmode :: bool
  ssh_exists :: bool
  scp_exists :: bool
  str_float :: "rat \<Rightarrow> string"

text \<open>The arguments of \<^verbatim>\<open>copyAndExecute\<close> besides the options.\<close>

record job =
  job_cells :: "host list"
  copyfiles :: "string list option"
  job_exec_file :: "string option"
  job_destfile :: "string option"
  command :: "string option"

text \<open>
  The main thread starts a thread and joins it; threads are numbered in the order of
  their creation.
\<close>

datatype event = Start nat | Join nat

text \<open>
  The state of one call of \<^verbatim>\<open>copyAndExecute\<close>: the dictionaries \<^verbatim>\<open>status\<close> and
  \<^verbatim>\<open>output\<close> (association lists in insertion order; \<^verbatim>\<open>output_map\<close> here), the lists \<^verbatim>\<open>badCells\<close>,
  \<^verbatim>\<open>cells_need_retry\<close> and \<^verbatim>\<open>waitList\<close>, the log of thread starts and joins, the log of
  spawned subprocesses, and the locals of the \<^verbatim>\<open>WorkThread\<close> that is running:
  \<^verbatim>\<open>childStatus\<close>, \<^verbatim>\<open>childOutput\<close>, \<^verbatim>\<open>self.output_truncated\<close>, whether \<^verbatim>\<open>sys.exit\<close> has
  ended the thread, and the stages for which it called \<^verbatim>\<open>runCommand\<close>. \<^verbatim>\<open>killed\<close> lists
  the hosts whose subprocess was sent \<^verbatim>\<open>SIGTERM\<close> after a truncation.

  The threads of a pass are run one after the other in the order of their start. A
  thread writes only its own host's entries and appends only its own host to the
  shared lists, so another interleaving permutes the lists and changes no membership.
\<close>

record state =
  status :: "(host \<times> int) list"
  output_map :: "(host \<times> string list) list"
  badCells :: "host list"
  cells_need_retry :: "host list"
  waitList :: "nat list"
  events :: "event list"
  nthreads :: nat
  spawned :: "(nat \<times> host \<times> stage) list"
  childStatus :: int
  childOutput :: "string list"
  output_truncated :: bool
  exited :: bool
  attempted :: "stage list"
  killed :: "host list"

definition init_state :: state where
  "init_state = \<lparr>status = [], output_map = [], badCells = [], cells_need_retry = [],
     waitList = [], events = [], nthreads = 0, spawned = [], childStatus = 0,
     childOutput = [], output_truncated = False, exited = False, attempted = [],
     killed = []\<rparr>"

text \<open>The locals of \<^verbatim>\<open>copyAndExecute\<close> derived from the options.\<close>

definition local_pushKey :: "Options \<Rightarrow> bool" where
  "local_pushKey options = (pushKey options \<or> konepw options)"

definition serialize :: "Options \<Rightarrow> bool" where
  "serialize options = (serializeOps options \<or> pushKey options)"

text \<open>\<^verbatim>\<open>if options.timeout\<close>: a timeout is given and is not zero.\<close>

definition timeout_set :: "Options \<Rightarrow> bool" where
  "timeout_set options = (case timeout options of None \<Rightarrow> False | Some t \<Rightarrow> t \<noteq> 0)"

subsection \<open>\<^verbatim>\<open>readNLines\<close>\<close>

text \<open>
  The result of \<^verbatim>\<open>readNLines\<close>: the lines it returns, the chunks it handed to
  \<^verbatim>\<open>listResults\<close> on the way, whether it set \<^verbatim>\<open>self.output_truncated\<close>, and the lines
  it left unread.
\<close>

record reading =
  outputLines :: "string list"
  displayed :: "string list list"
  truncated :: bool
  unread :: "string list"

fun readNLines_loop ::
  "int \<Rightarrow> bool \<Rightarrow> int \<Rightarrow> string list \<Rightarrow> string list list \<Rightarrow> string list \<Rightarrow> reading" where
  "readNLines_loop mx display_chunks i out shown [] =
     \<lparr>outputLines = out, displayed = shown, truncated = False, unread = []\<rparr>"
| "readNLines_loop mx display_chunks i out shown (l # r) =
     (if i + 1 > mx
      then (if display_chunks
            then readNLines_loop mx display_chunks 0 [] (shown @ [out @ [l]]) r
            else \<lparr>outputLines = [], displayed = shown @ [out @ [l]], truncated = True,
                   unread = r\<rparr>)
      else readNLines_loop mx display_chunks (i + 1) (out @ [l]) shown r)"

definition readNLines :: "Options \<Rightarrow> job \<Rightarrow> string list \<Rightarrow> bool \<Rightarrow> reading" where
  "readNLines options jb r serialize_arg =
     readNLines_loop (maxLines options) (serialize_arg \<or> length (job_cells jb) = 1) 0 [] [] r"

subsection \<open>\<^verbatim>\<open>WorkThread.runCommand\<close>\<close>

definition offending :: "string \<Rightarrow> bool" where
  "offending line = (contains line ''Offending key'' \<or> contains line ''Offending ECDSA key'')"

definition retry_if_needed :: "Options \<Rightarrow> string list \<Rightarrow> string list \<Rightarrow> bool" where
  "retry_if_needed options err out =
     (if \<not> konepw options then False
      else list_ex offending err \<or> list_ex offending out)"

definition readLinesWithBanner :: "string list \<Rightarrow> string list \<Rightarrow> string list" where
  "readLinesWithBanner r banner =
     [''******BANNER******''] @ banner @ [''******BANNER******''] @ r"

text \<open>The line appended for return code 124; the process id of the source's text is left out.\<close>

definition timeout_line :: "host \<Rightarrow> string" where
  "timeout_line cell = ''Timeout expired for pid to '' @ cell @ ''...''"

text \<open>\<^verbatim>\<open>if self.cell not in badCells: badCells.append(self.cell)\<close>.\<close>

definition add_bad :: "host \<Rightarrow> state \<Rightarrow> state" where
  "add_bad cell st =
     (if cell \<in> set (badCells st) then st else st\<lparr>badCells := badCells st @ [cell]\<rparr>)"

text \<open>
  The branch that lets \<^verbatim>\<open>ssh\<close> talk to the terminal: \<^verbatim>\<open>pushKey and not konepw and not
  inputLines\<close>.
\<close>

definition interactive :: "Options \<Rightarrow> string list option \<Rightarrow> bool" where
  "interactive options inputLines =
     (local_pushKey options \<and> \<not> konepw options \<and> \<not> truthy inputLines)"

text \<open>
  The three-way branch after the subprocess has ended: the timeout line for return
  code 124, else the retry list, else \<^verbatim>\<open>badCells\<close> for return code 255.
\<close>

definition classify :: "Options \<Rightarrow> host \<Rightarrow> proc \<Rightarrow> string list \<Rightarrow> state \<Rightarrow> string list \<times> state" where
  "classify options cell p l st =
     (if returncode p = 124 then (l @ [timeout_line cell], st)
      else if retry_if_needed options (banner_or_err p) l
      then (l, st\<lparr>cells_need_retry := cells_need_retry st @ [cell]\<rparr>)
      else if returncode p = 255 then (l, st\<lparr>badCells := badCells st @ [cell]\<rparr>)
      else (l, st))"

text \<open>
  \<^verbatim>\<open>runCommand\<close> returns \<^verbatim>\<open>(status, l)\<close>, or ends the thread with \<^verbatim>\<open>sys.exit(1)\<close> when
  the wait on \<^verbatim>\<open>communicate\<close> expires (\<^const>\<open>None\<close>). On the \<^verbatim>\<open>Popen\<close> path
  \<^verbatim>\<open>communicate\<close> and \<^verbatim>\<open>child.wait\<close> have returned before the lines are counted, so
  \<^verbatim>\<open>child.poll()\<close> is the return code. The signals of the branch
  \<^verbatim>\<open>if self.output_truncated == 1 and child.poll() == None\<close> are recorded in \<^verbatim>\<open>killed\<close>.
\<close>

definition poll :: "proc \<Rightarrow> int option" where
  "poll p = Some (returncode p)"

definition runCommand ::
  "world \<Rightarrow> Options \<Rightarrow> job \<Rightarrow> nat \<Rightarrow> host \<Rightarrow> stage \<Rightarrow> bool \<Rightarrow> string list option \<Rightarrow> state
     \<Rightarrow> (int \<times> string list) option \<times> state" where
  "runCommand w options jb pass cell stg serialize_arg inputLines st0 =
     (let st = st0\<lparr>spawned := spawned st0 @ [(pass, cell, stg)]\<rparr> in
      if interactive options inputLines
      then (case call w pass cell stg of
              Some s \<Rightarrow> (Some (s, []), if s \<noteq> 0 then add_bad cell st else st)
            | None \<Rightarrow> (Some (1, []), add_bad cell st))
      else
        (let p = popen w pass cell stg in
         if timeout_set options \<and> overdue p then (None, st)
         else
           (let rd = readNLines options jb (stdout p) serialize_arg;
                st1 = st\<lparr>output_truncated := (output_truncated st \<or> truncated rd)\<rparr>;
                (l, st2') = classify options cell p (outputLines rd) st1;
                st2 = (if output_truncated st2' \<and> poll p = None
                       then st2'\<lparr>killed := killed st2' @ [cell]\<rparr> else st2');
                l' = (if truthy (command jb) \<or> truthy (job_exec_file jb)
                      then (if returncode p = 255 then l
                            else if showBanner options
                            then readLinesWithBanner l (banner_or_err p) else l)
                      else l);
                s = (if output_truncated st2 then 1 else returncode p)
            in (Some (s, l'), st2))))"

subsection \<open>\<^verbatim>\<open>WorkThread.run\<close>\<close>

text \<open>
  \<^verbatim>\<open>childInput\<close>: the \<^verbatim>\<open>expect\<close> script when one password serves all hosts, else the
  empty list. The ssh command and the encoded password inside the script are left out.
\<close>

definition expect_script :: "string list" where
  "expect_script = [''spawn -noecho'', ''expect {'', ''Permission denied* { exit 255 }'',
     ''*password: {'', ''set encoded_pw'', ''set decoded_pw [exec printf %s $encoded_pw | base64 -d]'',
     ''send -- $decoded_pw'', ''exp_continue }'', ''*yes/no*)? {send yes'', ''exp_continue }'', ''}'']"

definition childInput :: "Options \<Rightarrow> string list" where
  "childInput options = (if konepw options then expect_script else [])"

text \<open>The list \<^verbatim>\<open>files\<close> that \<^verbatim>\<open>copyAndExecute\<close> fills before the threads start.\<close>

definition files :: "job \<Rightarrow> string list" where
  "files jb =
     (case copyfiles jb of None \<Rightarrow> [] | Some fl \<Rightarrow> map strip fl)
     @ (case job_exec_file jb of None \<Rightarrow> [] | Some f \<Rightarrow> if f = [] then [] else [strip f])"

text \<open>
  \<^verbatim>\<open>command\<close> as the threads see it: the caller's command, or the one built for the
  exec file. Only whether it is empty is read.
\<close>

definition command_given :: "job \<Rightarrow> bool" where
  "command_given jb = (truthy (command jb) \<or> truthy (job_exec_file jb))"

text \<open>\<^verbatim>\<open>destfile and destfile.endswith("/")\<close>.\<close>

definition dest_is_dir :: "job \<Rightarrow> bool" where
  "dest_is_dir jb =
     (case job_destfile jb of None \<Rightarrow> False | Some d \<Rightarrow> d \<noteq> [] \<and> endswith d ''/'')"

text \<open>
  One call \<^verbatim>\<open>childStatus, l = self.runCommand(...); childOutput.extend(l)\<close>. When
  \<^verbatim>\<open>runCommand\<close> ends the thread, nothing after it runs.
\<close>

definition run_stage ::
  "world \<Rightarrow> Options \<Rightarrow> job \<Rightarrow> nat \<Rightarrow> host \<Rightarrow> stage \<Rightarrow> bool \<Rightarrow> string list option \<Rightarrow> state \<Rightarrow> state" where
  "run_stage w options jb pass cell stg serialize_arg inputLines st =
     (case runCommand w options jb pass cell stg serialize_arg inputLines
             (st\<lparr>attempted := attempted st @ [stg]\<rparr>) of
        (None, st') \<Rightarrow> st'\<lparr>exited := True\<rparr>
      | (Some (s, l), st') \<Rightarrow> st'\<lparr>childStatus := s, childOutput := childOutput st' @ l\<rparr>)"

text \<open>The five \<^verbatim>\<open>if\<close> statements of \<^verbatim>\<open>run\<close>, each with the guard of the source.\<close>

definition key_exchange ::
  "world \<Rightarrow> string list \<Rightarrow> Options \<Rightarrow> job \<Rightarrow> nat \<Rightarrow> host \<Rightarrow> state \<Rightarrow> state" where
  "key_exchange w SSHKEY options jb pass cell st =
     (if SSHKEY \<noteq> [] \<and> local_pushKey options
      then run_stage w options jb pass cell KeyExchange True (Some (childInput options)) st
      else st)"

definition make_dest_dir ::
  "world \<Rightarrow> string list \<Rightarrow> Options \<Rightarrow> job \<Rightarrow> nat \<Rightarrow> host \<Rightarrow> state \<Rightarrow> state" where
  "make_dest_dir w SSHKEY options jb pass cell st =
     (if \<not> exited st \<and> childStatus st = 0 \<and> dest_is_dir jb
      then run_stage w options jb pass cell MakeDestDir (serialize options) None st
      else st)"

definition copy_files ::
  "world \<Rightarrow> string list \<Rightarrow> Options \<Rightarrow> job \<Rightarrow> nat \<Rightarrow> host \<Rightarrow> state \<Rightarrow> state" where
  "copy_files w SSHKEY options jb pass cell st =
     (if \<not> exited st \<and> childStatus st = 0 \<and> files jb \<noteq> []
      then run_stage w options jb pass cell Copy (serialize options) None st
      else st)"

definition run_command ::
  "world \<Rightarrow> string list \<Rightarrow> Options \<Rightarrow> job \<Rightarrow> nat \<Rightarrow> host \<Rightarrow> state \<Rightarrow> state" where
  "run_command w SSHKEY options jb pass cell st =
     (if \<not> exited st \<and> childStatus st = 0 \<and> command_given jb
      then run_stage w options jb pass cell RunCommand (serialize options) None st
      else st)"

definition key_drop ::
  "world \<Rightarrow> string list \<Rightarrow> Options \<Rightarrow> job \<Rightarrow> nat \<Rightarrow> host \<Rightarrow> state \<Rightarrow> state" where
  "key_drop w SSHKEY options jb pass cell st =
     (if \<not> exited st \<and> childStatus st = 0 \<and> SSHKEY \<noteq> [] \<and> dropKey options
      then run_stage w options jb pass cell KeyDrop (serialize options) None st
      else st)"

text \<open>
  The arguments \<^verbatim>\<open>serialize\<close> and \<^verbatim>\<open>inputLines\<close> that \<^verbatim>\<open>run\<close> passes to \<^verbatim>\<open>runCommand\<close> at
  each stage, gathered from the five calls above.
\<close>

definition stage_serialize :: "Options \<Rightarrow> stage \<Rightarrow> bool" where
  "stage_serialize options stg = (if stg = KeyExchange then True else serialize options)"

definition stage_input :: "Options \<Rightarrow> stage \<Rightarrow> string list option" where
  "stage_input options stg = (if stg = KeyExchange then Some (childInput options) else None)"

text \<open>The locals of a fresh thread.\<close>

definition enter_thread :: "state \<Rightarrow> state" where
  "enter_thread st = st\<lparr>childStatus := 0, childOutput := [], output_truncated := False,
     exited := False, attempted := []\<rparr>"

text \<open>The thread up to and including the command stage.\<close>

definition before_key_drop ::
  "world \<Rightarrow> string list \<Rightarrow> Options \<Rightarrow> job \<Rightarrow> nat \<Rightarrow> host \<Rightarrow> state \<Rightarrow> state" where
  "before_key_drop w SSHKEY options jb pass cell st =
     run_command w SSHKEY options jb pass cell
       (copy_files w SSHKEY options jb pass cell
          (make_dest_dir w SSHKEY options jb pass cell
             (key_exchange w SSHKEY options jb pass cell (enter_thread st))))"

text \<open>
  The end of \<^verbatim>\<open>run\<close>: \<^verbatim>\<open>status[self.cell] = childStatus; output[self.cell] = childOutput\<close>,
  which a thread ended by \<^verbatim>\<open>sys.exit\<close> does not reach.
\<close>

definition record_result :: "host \<Rightarrow> state \<Rightarrow> state" where
  "record_result cell st =
     (if exited st then st
      else st\<lparr>status := AList.update cell (childStatus st) (status st),
              output_map := AList.update cell (childOutput st) (output_map st)\<rparr>)"

definition run ::
  "world \<Rightarrow> string list \<Rightarrow> Options \<Rightarrow> job \<Rightarrow> nat \<Rightarrow> host \<Rightarrow> state \<Rightarrow> state" where
  "run w SSHKEY options jb pass cell st =
     record_result cell
       (key_drop w SSHKEY options jb pass cell
          (before_key_drop w SSHKEY options jb pass cell st))"

subsection \<open>\<^verbatim>\<open>run_workThread\<close> and \<^verbatim>\<open>copyAndExecute\<close>\<close>

text \<open>
  The first loop of \<^verbatim>\<open>run_workThread\<close>: start a thread for the host, then either join it
  at once (\<^verbatim>\<open>serialize\<close>) or put it on \<^verbatim>\<open>waitList\<close>.
\<close>

fun start_threads ::
  "world \<Rightarrow> string list \<Rightarrow> Options \<Rightarrow> job \<Rightarrow> nat \<Rightarrow> host list \<Rightarrow> state \<Rightarrow> state" where
  "start_threads w SSHKEY options jb pass [] st = st"
| "start_threads w SSHKEY options jb pass (cell # all_cells) st =
     (let tid = nthreads st;
          st1 = run w SSHKEY options jb pass cell
                  (st\<lparr>nthreads := Suc tid, events := events st @ [Start tid]\<rparr>);
          st2 = (if serialize options
                 then st1\<lparr>events := events st1 @ [Join tid]\<rparr>
                 else st1\<lparr>waitList := waitList st1 @ [tid]\<rparr>)
      in start_threads w SSHKEY options jb pass all_cells st2)"

text \<open>The second loop joins every thread of \<^verbatim>\<open>waitList\<close>.\<close>

definition run_workThread ::
  "world \<Rightarrow> string list \<Rightarrow> Options \<Rightarrow> job \<Rightarrow> nat \<Rightarrow> host list \<Rightarrow> state \<Rightarrow> state" where
  "run_workThread w SSHKEY options jb pass all_cells st =
     (let st1 = start_threads w SSHKEY options jb pass all_cells st
      in st1\<lparr>events := events st1 @ map Join (waitList st1)\<rparr>)"

text \<open>\<^verbatim>\<open>remove_offending_keys\<close>: the hosts of the retry list that can be retried.\<close>

definition remove_offending_keys :: "world \<Rightarrow> host list \<Rightarrow> host list" where
  "remove_offending_keys w retry = filter (able_to_retry w) retry"

text \<open>
  \<^verbatim>\<open>copyAndExecute\<close>, first with the whole final state, then with the triple the source
  returns. A keyboard interrupt is not modelled.
\<close>

definition copyAndExecute_state ::
  "env \<Rightarrow> world \<Rightarrow> string list \<Rightarrow> job \<Rightarrow> Options \<Rightarrow> exc + state" where
  "copyAndExecute_state ev w SSHKEY jb options =
     (if (truthy (command jb) \<or> truthy (job_exec_file jb)) \<and> \<not> testmode ev \<and> \<not> ssh_exists ev
      then Inl Error
      else if (truthy (copyfiles jb) \<or> truthy (job_exec_file jb)) \<and> \<not> testmode ev
              \<and> \<not> scp_exists ev
      then Inl Error
      else
        (let st = run_workThread w SSHKEY options jb 0 (job_cells jb) init_state
         in if cells_need_retry st \<noteq> []
            then Inr (run_workThread w SSHKEY options jb 1
                        (remove_offending_keys w (cells_need_retry st)) st)
            else Inr st))"

definition copyAndExecute ::
  "env \<Rightarrow> world \<Rightarrow> string list \<Rightarrow> job \<Rightarrow> Options
     \<Rightarrow> exc + (host \<times> int) list \<times> (host \<times> string list) list \<times> host list" where
  "copyAndExecute ev w SSHKEY jb options =
     (case copyAndExecute_state ev w SSHKEY jb options of
        Inl e \<Rightarrow> Inl e
      | Inr st \<Rightarrow> Inr (status st, output_map st, badCells st))"

text \<open>
  The number of threads that have been started and not yet joined, at its highest over
  a log of starts and joins.
\<close>

fun max_live :: "nat list \<Rightarrow> event list \<Rightarrow> nat" where
  "max_live live [] = length live"
| "max_live live (Start t # es) = max (length live) (max_live (t # live) es)"
| "max_live live (Join t # es) = max (length live) (max_live (removeAll t live) es)"

subsection \<open>\<^verbatim>\<open>main\<close>\<close>

definition EXA_TMP_DIR :: string where
  "EXA_TMP_DIR = ''/var/log/exadatatmp/''"

definition buildCommand :: "(rat \<Rightarrow> string) \<Rightarrow> string list \<Rightarrow> Options \<Rightarrow> string" where
  "buildCommand str args options =
     (let cmd = ''('' @ (if rootWithExaTmp options then ''cd '' @ EXA_TMP_DIR @ '';'' else [])
                @ concat (map (\<lambda>word. '' '' @ word) args)
                @ (if hideStderr options then '') 2>/dev/null'' else '') 2>&1'')
      in case timeout options of
           None \<Rightarrow> cmd
         | Some t \<Rightarrow>
             if t = 0 then cmd
             else ''timeout '' @ str t @ ''s /bin/sh -c '' @ [CHR 0x27] @ ''('' @ cmd @ '')''
                  @ [CHR 0x27])"

text \<open>
  The batch loop of \<^verbatim>\<open>main\<close> without the \<^verbatim>\<open>--vmstat\<close> sampling. \<^verbatim>\<open>main\<close> has refused a
  batch size below 1 before the loop, so the size is a natural number here, 0 for no
  batching. The printing of \<^verbatim>\<open>listResults\<close> is left out.
\<close>

function batch_loop ::
  "env \<Rightarrow> world \<Rightarrow> string list \<Rightarrow> Options \<Rightarrow> string option \<Rightarrow> host list \<Rightarrow> nat \<Rightarrow> nat \<Rightarrow> int
     \<Rightarrow> exc + int" where
  "batch_loop ev w SSHKEY options cmd clist n batchBegin returnValue =
     (let batchEnd = (if n = 0 \<or> n \<ge> length clist - batchBegin then length clist
                      else batchBegin + n)
      in case copyAndExecute ev w SSHKEY
                \<lparr>job_cells = take (batchEnd - batchBegin) (drop batchBegin clist),
                 copyfiles = file_opt options, job_exec_file = exec_file options,
                 job_destfile = destfile options, command = cmd\<rparr> options of
           Inl e \<Rightarrow> Inl e
         | Inr (statusMap, outputMap, bad) \<Rightarrow>
             (let returnValue1 = (if length bad > 0 then 1 else returnValue);
                  returnValue2 = fold max (map snd statusMap) returnValue1
              in if batchEnd = length clist then Inr returnValue2
                 else batch_loop ev w SSHKEY options cmd clist n batchEnd returnValue2))"
  by pat_completeness auto
termination
  by (relation "measure (\<lambda>(ev, w, SSHKEY, options, cmd, clist, n, batchBegin, returnValue).
                   length clist - batchBegin)") (auto split: if_splits)

text \<open>
  The body of the \<^verbatim>\<open>try\<close> statement of \<^verbatim>\<open>main\<close>: every \<^verbatim>\<open>raise\<close> in the order of the
  source, then the batch loop. The result is the exception raised or \<^verbatim>\<open>returnValue\<close>.
\<close>

definition files_ok :: "env \<Rightarrow> Options \<Rightarrow> bool" where
  "files_ok ev options =
     ((case exec_file options of None \<Rightarrow> True | Some f \<Rightarrow> f = [] \<or> file_ok ev f True)
      \<and> (case file_opt options of None \<Rightarrow> True | Some fl \<Rightarrow> list_all (\<lambda>f. file_ok ev f False) fl))"

definition main_body :: "env \<Rightarrow> world \<Rightarrow> Options \<Rightarrow> string list \<Rightarrow> exc + int" where
  "main_body ev w options args =
     (let cmd = (if length args > 0 then Some (buildCommand (str_float ev) args options) else None);
          keyed = (pushKey options \<or> konepw options \<or> dropKey options)
      in
      if \<not> truthy cmd \<and> \<not> (list_hosts options \<or> truthy (exec_file options)
            \<or> truthy (file_opt options) \<or> keyed)
      then Inl UsageError
      else if truthy cmd \<and> truthy (exec_file options) then Inl UsageError
      else if truthy (file_opt options) \<and> truthy (exec_file options) then Inl UsageError
      else if hideStderr options \<and> length args = 0 then Inl UsageError
      else if listNegatives options \<and> truthy (regexp options) then Inl UsageError
      else if keyed \<and> found_keys ev = [] then Inl Error
      else if (case ctimeout options of None \<Rightarrow> False | Some c \<Rightarrow> c < 0) then Inl UsageError
      else if truthy (userID options) \<and> rootWithExaTmp options \<and> userID options \<noteq> Some ''root''
      then Inl UsageError
      else
        (case buildCellList (disk ev) (cells options) (groupfile options) of
           Inl e \<Rightarrow> Inl e
         | Inr clist \<Rightarrow>
             if maxThds options \<noteq> 0 \<and> serializeOps options then Inl UsageError
             else if maxThds options \<noteq> 0 \<and> maxThds options < 1 then Inl UsageError
             else
               (case auto_batch (fd_limit ev) clist (maxThds options \<noteq> 0) options of
                  (batch, options') \<Rightarrow>
                    if length clist = 0 then Inl UsageError
                    else if \<not> files_ok ev options' then Inl Error
                    else if truthy (destfile options')
                            \<and> \<not> (truthy (exec_file options') \<or> truthy (file_opt options'))
                    then Inl UsageError
                    else batch_loop ev w (if keyed then found_keys ev else []) options' cmd
                           clist (nat (maxThds options')) 0 0)))"

text \<open>
  \<^verbatim>\<open>main\<close>: 2 for each of the three exceptions it catches, else \<^verbatim>\<open>returnValue and 1\<close>.
\<close>

definition main :: "env \<Rightarrow> world \<Rightarrow> Options \<Rightarrow> string list \<Rightarrow> int" where
  "main ev w options args =
     (case main_body ev w options args of
        Inl UsageError \<Rightarrow> 2
      | Inl Error \<Rightarrow> 2
      | Inl IOError \<Rightarrow> 2
      | Inr returnValue \<Rightarrow> if returnValue = 0 then returnValue else 1)"

subsection \<open>Predicates of the properties\<close>

text \<open>
  The outcome of a spawn after which \<^verbatim>\<open>runCommand\<close> puts the host on \<^verbatim>\<open>badCells\<close>: on
  the terminal path any result of \<^verbatim>\<open>subprocess.call\<close> but status 0; on the \<^verbatim>\<open>Popen\<close>
  path return code 255 when the wait did not expire and no retry is due.
\<close>

definition bad_outcome :: "world \<Rightarrow> Options \<Rightarrow> job \<Rightarrow> nat \<Rightarrow> host \<Rightarrow> stage \<Rightarrow> bool" where
  "bad_outcome w options jb pass cell stg =
     (if interactive options (stage_input options stg)
      then call w pass cell stg \<noteq> Some 0
      else (\<not> (timeout_set options \<and> overdue (popen w pass cell stg))
            \<and> returncode (popen w pass cell stg) = 255
            \<and> \<not> retry_if_needed options (banner_or_err (popen w pass cell stg))
                  (outputLines (readNLines options jb (stdout (popen w pass cell stg))
                     (stage_serialize options stg)))))"

text \<open>Every logged spawn with such an outcome has its host on \<^verbatim>\<open>badCells\<close>.\<close>

definition marks_kept :: "world \<Rightarrow> Options \<Rightarrow> job \<Rightarrow> state \<Rightarrow> bool" where
  "marks_kept w options jb st =
     list_all (\<lambda>(pass, cell, stg).
                 if bad_outcome w options jb pass cell stg then cell \<in> set (badCells st) else True)
       (spawned st)"

text \<open>The threads started and not yet joined at the end of a log.\<close>

fun live_after :: "nat list \<Rightarrow> event list \<Rightarrow> nat list" where
  "live_after live [] = live"
| "live_after live (Start t # es) = live_after (t # live) es"
| "live_after live (Join t # es) = live_after (removeAll t live) es"

subsection \<open>Example data\<close>

text \<open>The defaults of the option parser, a subprocess that prints nothing and exits 0,
  a world in which every subprocess is such a one, and an environment with the
  programs and one key in place.\<close>

definition default_options :: Options where
  "default_options = \<lparr>maxThds = 0, cells = None, ctimeout = None, destfile = None,
     file_opt = None, groupfile = None, hideStderr = False, pushKey = False, konepw = False,
     userID = None, rootWithExaTmp = False, maxLines = 100000, listNegatives = False,
     regexp = None, serializeOps = False, showBanner = False, list_hosts = False,
     timeout = None, dropKey = False, exec_file = None\<rparr>"

definition quiet :: proc where
  "quiet = \<lparr>returncode = 0, stdout = [], banner_or_err = [], overdue = False\<rparr>"

definition steady :: world where
  "steady = \<lparr>popen = (\<lambda>pass cell stg. quiet), call = (\<lambda>pass cell stg. Some 0),
     able_to_retry = (\<lambda>cell. False)\<rparr>"

definition plain_env :: env where
  "plain_env = \<lparr>disk = (\<lambda>path. None), fd_limit = None, found_keys = [''ssh-rsa AAAA''],
     file_ok = (\<lambda>path isExec. True), testmode = False, ssh_exists = True, scp_exists = True,
     str_float = (\<lambda>t. ''3.0'')\<rparr>"

definition command_job :: "host list \<Rightarrow> job" where
  "command_job hosts = \<lparr>job_cells = hosts, copyfiles = None, job_exec_file = None,
     job_destfile = None, command = Some ''( true) 2>&1''\<rparr>"

definition key_job :: "host list \<Rightarrow> job" where
  "key_job hosts = \<lparr>job_cells = hosts, copyfiles = None, job_exec_file = None,
     job_destfile = None, command = None\<rparr>"

text \<open>
  Worlds that differ from \<^const>\<open>steady\<close> in what every \<^verbatim>\<open>Popen\<close> subprocess does: it
  exits 255; exits 255 with the warning of a stale host key on its standard error;
  exits 1 at the command stage; prints two or three lines; never lets \<^verbatim>\<open>communicate\<close>
  return in time; is killed by signal 9. The last two worlds are those of the terminal
  path, where \<^verbatim>\<open>subprocess.call\<close> returns 5 or raises.
\<close>

definition refusing :: world where
  "refusing = steady\<lparr>popen := (\<lambda>pass cell stg. quiet\<lparr>returncode := 255\<rparr>)\<rparr>"

definition offended :: world where
  "offended = steady\<lparr>popen := (\<lambda>pass cell stg.
     quiet\<lparr>returncode := 255, banner_or_err := [''Offending key for IP in known_hosts:3'']\<rparr>)\<rparr>"

definition failing :: world where
  "failing = steady\<lparr>popen := (\<lambda>pass cell stg.
     if stg = RunCommand then quiet\<lparr>returncode := 1\<rparr> else quiet)\<rparr>"

definition talking :: world where
  "talking = steady\<lparr>popen := (\<lambda>pass cell stg. quiet\<lparr>stdout := [''spawn'', ''ssh key added'']\<rparr>)\<rparr>"

definition chatty :: world where
  "chatty = steady\<lparr>popen := (\<lambda>pass cell stg. quiet\<lparr>stdout := [''a'', ''b'', ''c'']\<rparr>)\<rparr>"

definition wedged :: world where
  "wedged = steady\<lparr>popen := (\<lambda>pass cell stg. quiet\<lparr>overdue := True\<rparr>)\<rparr>"

definition signalled :: world where
  "signalled = steady\<lparr>popen := (\<lambda>pass cell stg. quiet\<lparr>returncode := - 9\<rparr>)\<rparr>"

definition denying :: world where
  "denying = steady\<lparr>call := (\<lambda>pass cell stg. Some 5)\<rparr>"

definition raising :: world where
  "raising = steady\<lparr>call := (\<lambda>pass cell stg. None)\<rparr>"

section \<open>Properties\<close>

subsection \<open>The host list\<close>

lemma unique_loop_first_seen:
  "unique_loop acc xs = acc @ filter (\<lambda>y. y \<notin> set acc) (first_seen xs)"
proof (induction xs arbitrary: acc)
  case Nil
  then show ?case by simp
next
  case (Cons x xs)
  show ?case
  proof (cases "x \<in> set acc")
    case True
    have "filter (\<lambda>y. y \<notin> set acc) (filter (\<lambda>y. y \<noteq> x) (first_seen xs))
          = filter (\<lambda>y. y \<notin> set acc) (first_seen xs)"
      using True by (auto intro: filter_cong)
    with True Cons.IH [of acc] show ?thesis by simp
  next
    case False
    have "filter (\<lambda>y. y \<notin> set (acc @ [x])) (first_seen xs)
          = filter (\<lambda>y. y \<notin> set acc) (filter (\<lambda>y. y \<noteq> x) (first_seen xs))"
      by (auto intro: filter_cong)
    with False Cons.IH [of "acc @ [x]"] show ?thesis by simp
  qed
qed

lemma set_first_seen: "set (first_seen xs) = set xs"
  by (induction xs) auto

lemma distinct_first_seen: "distinct (first_seen xs)"
  by (induction xs) (auto simp: set_first_seen)

lemma first_index_Cons:
  "first_index (x # xs) y = (if y = x then 0 else Suc (first_index xs y))"
  by (simp add: first_index_def)

lemma sorted_first_seen:
  "sorted_wrt (\<lambda>a b. first_index xs a < first_index xs b) (first_seen xs)"
proof (induction xs)
  case Nil
  then show ?case by simp
next
  case (Cons x xs)
  have "sorted_wrt (\<lambda>a b. first_index xs a < first_index xs b)
          (filter (\<lambda>y. y \<noteq> x) (first_seen xs))"
    using Cons.IH by (rule sorted_wrt_filter)
  then have "sorted_wrt (\<lambda>a b. first_index (x # xs) a < first_index (x # xs) b)
          (filter (\<lambda>y. y \<noteq> x) (first_seen xs))"
    by (rule sorted_wrt_mono_rel [rotated]) (simp add: first_index_Cons)
  then show ?case by (simp add: first_index_Cons)
qed

text \<open>
  Claim C8. Whatever the inline entries and the lines of the host-list file are, the
  list \<^verbatim>\<open>buildCellList\<close> returns has no duplicate, holds exactly the entries of the file
  followed by the inline ones, and keeps every host at the place of its first
  occurrence in that sequence: it is the sequence with the later duplicates removed,
  and its hosts are in the order of their first positions there.
\<close>

theorem buildCellList_unique_first_seen:
  fixes cells :: "string list option"
  assumes "group_entries fs filename = Inr from_file"
  shows "\<exists>r. buildCellList fs cells filename = Inr r
           \<and> distinct r
           \<and> set r = set (from_file @ cell_entries cells)
           \<and> r = first_seen (from_file @ cell_entries cells)
           \<and> sorted_wrt (\<lambda>a b. first_index (from_file @ cell_entries cells) a
                                  < first_index (from_file @ cell_entries cells) b) r"
  using assms
  by (simp add: buildCellList_def unique_loop_first_seen distinct_first_seen set_first_seen
        sorted_first_seen del: set_append)

theorem buildCellList_unique_first_seen_witness:
  "group_entries (\<lambda>p. if p = ''g'' then Some [''h2'', ''# c'', '' '', '' h1 '', ''h2''] else None)
     (Some '' g '') = Inr [''h2'', ''h1'', ''h2'']
   \<and> buildCellList (\<lambda>p. if p = ''g'' then Some [''h2'', ''# c'', '' '', '' h1 '', ''h2''] else None)
       (Some [''h3,h1'', ''h2, h4'']) (Some '' g '') = Inr [''h2'', ''h1'', ''h3'', ''h4'']"
proof -
  let ?fs = "\<lambda>p. if p = ''g'' then Some [''h2'', ''# c'', '' '', '' h1 '', ''h2''] else None"
  have g: "group_entries ?fs (Some '' g '') = Inr [''h2'', ''h1'', ''h2'']"
    by (simp add: group_entries_def strip_def is_space_def startswith_def Let_def)
  have c: "cell_entries (Some [''h3,h1'', ''h2, h4'']) = [''h3'', ''h1'', ''h2'', ''h4'']"
    by (simp add: cell_entries_def strip_def is_space_def)
  from buildCellList_unique_first_seen [OF g, of "Some [''h3,h1'', ''h2, h4'']"]
  obtain r where "buildCellList ?fs (Some [''h3,h1'', ''h2, h4'']) (Some '' g '') = Inr r"
    and "r = first_seen ([''h2'', ''h1'', ''h2''] @ cell_entries (Some [''h3,h1'', ''h2, h4'']))"
    by blast
  then show ?thesis using g by (simp add: c)
qed

lemma split_nonempty: "split d s \<noteq> []"
  by (induction s) (auto split: list.splits)

lemma file_entries_no_blank: "[] \<notin> set (file_entries lines)"
  by (induction lines) (auto simp: Let_def)

lemma inline_entries_mem:
  "cline \<in> set clines \<Longrightarrow> item \<in> set (split CHR '','' cline) \<Longrightarrow> strip item \<in> set (inline_entries clines)"
  by (induction clines) auto

text \<open>
  Claim C10. An inline entry with an item that is empty after stripping, as the one
  after the comma of \<^verbatim>\<open>"h1,"\<close>, puts the empty string into the list
  \<^verbatim>\<open>buildCellList\<close> returns; the entries read from the host-list file never hold the
  empty string.
\<close>

theorem buildCellList_blank_inline_kept:
  fixes cells :: "string list option"
  assumes "cells = Some clines" and "cline \<in> set clines"
    and "item \<in> set (split CHR '','' cline)" and "strip item = []"
    and "buildCellList fs cells filename = Inr r"
  shows "[] \<in> set r \<and> [] \<notin> set (file_entries lines)"
proof -
  from assms(2,3) have "strip item \<in> set (inline_entries clines)" by (rule inline_entries_mem)
  with assms(1,2,4) have "[] \<in> set (cell_entries cells)"
    by (auto simp: cell_entries_def)
  with assms(5) have "[] \<in> set r"
    by (auto simp: buildCellList_def unique_loop_first_seen set_first_seen split: sum.splits)
  then show ?thesis by (simp add: file_entries_no_blank)
qed

theorem buildCellList_blank_inline_kept_witness:
  "buildCellList (\<lambda>p. None) (Some [''h1,'']) None = Inr [''h1'', []]
   \<and> [] \<in> set (split CHR '','' ''h1,'') \<and> strip [] = []
   \<and> [] \<in> set [''h1'', []]"
proof -
  have b: "buildCellList (\<lambda>p. None) (Some [''h1,'']) None = Inr [''h1'', []]"
    by (simp add: buildCellList_def group_entries_def cell_entries_def strip_def is_space_def)
  have i: "[] \<in> set (split CHR '','' ''h1,'')" by simp
  have s: "strip [] = []" by (simp add: strip_def)
  have m: "''h1,'' \<in> set [''h1,'']" by simp
  from buildCellList_blank_inline_kept [OF refl m i s b]
  have "[] \<in> set [''h1'', []]" by simp
  with b i s show ?thesis by simp
qed

subsection \<open>The automatic batch size\<close>

text \<open>
  \<^verbatim>\<open>update_max_threads\<close> derives a batch size exactly when none was given, \<^verbatim>\<open>--serial\<close>
  is off, the descriptor limit is known and leaves room for at least one host.
\<close>

lemma update_max_threads_derives_iff:
  "fst (update_max_threads fdl options)
     = (maxThds options = 0 \<and> \<not> serializeOps options
        \<and> (case fdl of None \<Rightarrow> False | Some F \<Rightarrow> 1 \<le> (F - 10) div 7))"
  by (auto simp: update_max_threads_def Let_def FDS_PER_CELL_def RESERVED_FDS_def
      split: option.splits)

lemma room_for_one_host: "(1 \<le> (F - 10) div 7) = (17 \<le> (F :: int))"
  by presburger

text \<open>
  Claim C4, amended. Let no batch size be given and \<^verbatim>\<open>--serial\<close>
  (\<^verbatim>\<open>options.serializeOps\<close>) be off. For a descriptor limit \<open>F\<close> of at least 17,
  \<^verbatim>\<open>update_max_threads\<close> sets the batch size to \<open>(F - 10) div 7\<close>, which is then
  \<open>max 1 ((F - 10) div 7)\<close>, and \<^verbatim>\<open>main\<close> turns batching on when there is more than one
  host. For a limit below 17 nothing is derived: the options stay as they are, with
  batch size 0, and so does the \<^verbatim>\<open>batch\<close> flag. When a batch size is given,
  \<^verbatim>\<open>--serial\<close> is set or the limit is unknown, the options and the flag stay as they
  are too. A key push with \<^verbatim>\<open>-k\<close>, which sets the derived \<^verbatim>\<open>serialize\<close> flag of
  \<^verbatim>\<open>copyAndExecute\<close>, is not among the conditions.
\<close>

theorem update_max_threads_auto:
  "(maxThds options = 0 \<and> \<not> serializeOps options \<and> 17 \<le> F \<longrightarrow>
      update_max_threads (Some F) options
        = (True, options\<lparr>maxThds := max 1 ((F - 10) div 7)\<rparr>)
      \<and> max 1 ((F - 10) div 7) = (F - 10) div 7
      \<and> auto_batch (Some F) clist batch options
        = (if length clist > 1 then (True, options\<lparr>maxThds := max 1 ((F - 10) div 7)\<rparr>)
           else (batch, options)))
   \<and> (maxThds options = 0 \<and> \<not> serializeOps options \<and> F < 17 \<longrightarrow>
      update_max_threads (Some F) options = (False, options)
      \<and> auto_batch (Some F) clist batch options = (batch, options))
   \<and> (maxThds options \<noteq> 0 \<or> serializeOps options \<or> fdl = None \<longrightarrow>
      update_max_threads fdl options = (False, options)
      \<and> auto_batch fdl clist batch options = (batch, options))"
proof -
  have d: "17 \<le> F \<Longrightarrow> max 1 ((F - 10) div 7) = (F - 10) div 7"
    using room_for_one_host [of F] by simp
  have low: "F < 17 \<Longrightarrow> (F - 10) div 7 < 1"
    using room_for_one_host [of F] by simp
  have high: "17 \<le> F \<Longrightarrow> \<not> (F - 10) div 7 < 1"
    using room_for_one_host [of F] by simp
  show ?thesis
    by (auto simp: update_max_threads_def auto_batch_def Let_def FDS_PER_CELL_def
        RESERVED_FDS_def d low high split: option.splits)
qed

text \<open>
  The theorem at the limit 1024 with the default options and with \<^verbatim>\<open>-k\<close>, at the
  limit 10, and at an explicit batch size of 5.
\<close>

theorem update_max_threads_auto_witness:
  "update_max_threads (Some 1024) default_options = (True, default_options\<lparr>maxThds := 144\<rparr>)
   \<and> auto_batch (Some 1024) [''h1'', ''h2''] False default_options
       = (True, default_options\<lparr>maxThds := 144\<rparr>)
   \<and> update_max_threads (Some 1024) (default_options\<lparr>pushKey := True\<rparr>)
       = (True, default_options\<lparr>pushKey := True, maxThds := 144\<rparr>)
   \<and> update_max_threads (Some 10) default_options = (False, default_options)
   \<and> auto_batch (Some 10) [''h1'', ''h2''] False default_options = (False, default_options)
   \<and> update_max_threads (Some 1024) (default_options\<lparr>maxThds := 5\<rparr>)
       = (False, default_options\<lparr>maxThds := 5\<rparr>)
   \<and> update_max_threads (Some 1024) (default_options\<lparr>serializeOps := True\<rparr>)
       = (False, default_options\<lparr>serializeOps := True\<rparr>)"
proof -
  have z: "maxThds default_options = 0" "\<not> serializeOps default_options"
    "maxThds (default_options\<lparr>pushKey := True\<rparr>) = 0"
    "\<not> serializeOps (default_options\<lparr>pushKey := True\<rparr>)"
    by (simp_all add: default_options_def)
  have m: "max 1 ((1024 - 10) div 7) = (144 :: int)" by simp
  from update_max_threads_auto [where options = default_options and F = 1024
      and clist = "[''h1'', ''h2'']" and batch = False and fdl = None] z m
  have a: "update_max_threads (Some 1024) default_options
             = (True, default_options\<lparr>maxThds := 144\<rparr>)"
    and b: "auto_batch (Some 1024) [''h1'', ''h2''] False default_options
             = (True, default_options\<lparr>maxThds := 144\<rparr>)"
    by simp_all
  from update_max_threads_auto [where options = "default_options\<lparr>pushKey := True\<rparr>"
      and F = 1024 and fdl = None] z m
  have c: "update_max_threads (Some 1024) (default_options\<lparr>pushKey := True\<rparr>)
             = (True, default_options\<lparr>pushKey := True, maxThds := 144\<rparr>)"
    by simp
  from update_max_threads_auto [where options = default_options and F = 10
      and clist = "[''h1'', ''h2'']" and batch = False and fdl = None] z
  have d: "update_max_threads (Some 10) default_options = (False, default_options)"
    and e: "auto_batch (Some 10) [''h1'', ''h2''] False default_options
             = (False, default_options)"
    by simp_all
  from update_max_threads_auto [where options = "default_options\<lparr>maxThds := 5\<rparr>"
      and fdl = "Some 1024"]
  have f: "update_max_threads (Some 1024) (default_options\<lparr>maxThds := 5\<rparr>)
             = (False, default_options\<lparr>maxThds := 5\<rparr>)"
    by simp
  from update_max_threads_auto [where options = "default_options\<lparr>serializeOps := True\<rparr>"
      and fdl = "Some 1024"]
  have g: "update_max_threads (Some 1024) (default_options\<lparr>serializeOps := True\<rparr>)
             = (False, default_options\<lparr>serializeOps := True\<rparr>)"
    by simp
  from a b c d e f g show ?thesis by simp
qed

text \<open>
  Claim C4 as stated fails. At the limit 10 with the default options the size
  \<open>max 1 ((10 - 10) div 7)\<close> would be 1, and \<^verbatim>\<open>update_max_threads\<close> derives none: it
  returns \<^verbatim>\<open>False\<close> and the batch size stays 0. And with \<^verbatim>\<open>-k\<close> the derived
  \<^verbatim>\<open>serialize\<close> flag is set, and a size is derived all the same.
\<close>

theorem update_max_threads_no_clamp:
  "update_max_threads (Some 10) default_options = (False, default_options)
   \<and> maxThds default_options = 0
   \<and> max 1 ((10 - 10) div 7) = (1 :: int)
   \<and> serialize (default_options\<lparr>pushKey := True\<rparr>)
   \<and> update_max_threads (Some 1024) (default_options\<lparr>pushKey := True\<rparr>)
       = (True, default_options\<lparr>pushKey := True, maxThds := 144\<rparr>)"
  by (simp add: update_max_threads_def default_options_def serialize_def FDS_PER_CELL_def
      RESERVED_FDS_def)

subsection \<open>The evaluation of the examples\<close>

lemmas example_defs = default_options_def quiet_def steady_def plain_env_def command_job_def
  key_job_def refusing_def offended_def failing_def talking_def chatty_def wedged_def
  signalled_def denying_def raising_def

lemmas thread_defs = run_def before_key_drop_def key_exchange_def make_dest_dir_def
  copy_files_def run_command_def key_drop_def enter_thread_def record_result_def run_stage_def
  runCommand_def classify_def readNLines_def retry_if_needed_def offending_def interactive_def
  local_pushKey_def serialize_def timeout_set_def command_given_def dest_is_dir_def files_def
  childInput_def expect_script_def add_bad_def poll_def init_state_def readLinesWithBanner_def
  timeout_line_def startswith_def

lemmas pass_defs = copyAndExecute_def copyAndExecute_state_def run_workThread_def
  remove_offending_keys_def

subsection \<open>\<^verbatim>\<open>runCommand\<close>\<close>

lemma add_bad_simps [simp]:
  "status (add_bad c st) = status st"
  "output_map (add_bad c st) = output_map st"
  "cells_need_retry (add_bad c st) = cells_need_retry st"
  "waitList (add_bad c st) = waitList st"
  "events (add_bad c st) = events st"
  "nthreads (add_bad c st) = nthreads st"
  "spawned (add_bad c st) = spawned st"
  "childStatus (add_bad c st) = childStatus st"
  "childOutput (add_bad c st) = childOutput st"
  "output_truncated (add_bad c st) = output_truncated st"
  "exited (add_bad c st) = exited st"
  "attempted (add_bad c st) = attempted st"
  "killed (add_bad c st) = killed st"
  "set (badCells (add_bad c st)) = insert c (set (badCells st))"
  by (auto simp: add_bad_def)

lemma classify_frame [simp]:
  "status (snd (classify options c p l st)) = status st"
  "output_map (snd (classify options c p l st)) = output_map st"
  "waitList (snd (classify options c p l st)) = waitList st"
  "events (snd (classify options c p l st)) = events st"
  "nthreads (snd (classify options c p l st)) = nthreads st"
  "spawned (snd (classify options c p l st)) = spawned st"
  "childStatus (snd (classify options c p l st)) = childStatus st"
  "childOutput (snd (classify options c p l st)) = childOutput st"
  "output_truncated (snd (classify options c p l st)) = output_truncated st"
  "exited (snd (classify options c p l st)) = exited st"
  "attempted (snd (classify options c p l st)) = attempted st"
  "killed (snd (classify options c p l st)) = killed st"
  by (simp_all add: classify_def)

lemma classify_badCells:
  "set (badCells (snd (classify options c p l st)))
     = (if returncode p = 255 \<and> \<not> retry_if_needed options (banner_or_err p) l
        then insert c (set (badCells st)) else set (badCells st))"
  by (simp add: classify_def)

lemma runCommand_popen:
  assumes "\<not> interactive options inputLines"
    and "\<not> (timeout_set options \<and> overdue (popen w pass cell stg))"
  shows "runCommand w options jb pass cell stg ser inputLines st =
     (let p = popen w pass cell stg;
          rd = readNLines options jb (stdout p) ser;
          c = classify options cell p (outputLines rd)
                (st\<lparr>spawned := spawned st @ [(pass, cell, stg)],
                    output_truncated := (output_truncated st \<or> truncated rd)\<rparr>);
          l = fst c;
          l' = (if command_given jb
                then (if returncode p = 255 then l
                      else if showBanner options then readLinesWithBanner l (banner_or_err p) else l)
                else l)
      in (Some (if output_truncated st \<or> truncated rd then 1 else returncode p, l'), snd c))"
  using assms
  by (simp add: runCommand_def Let_def split_beta poll_def command_given_def)

lemma runCommand_expired:
  assumes "\<not> interactive options inputLines"
    and "timeout_set options \<and> overdue (popen w pass cell stg)"
  shows "runCommand w options jb pass cell stg ser inputLines st =
     (None, st\<lparr>spawned := spawned st @ [(pass, cell, stg)]\<rparr>)"
  using assms by (simp add: runCommand_def Let_def)

lemma runCommand_interactive:
  assumes "interactive options inputLines"
  shows "runCommand w options jb pass cell stg ser inputLines st =
     (case call w pass cell stg of
        Some s \<Rightarrow> (Some (s, []), if s \<noteq> 0 then add_bad cell (st\<lparr>spawned := spawned st @ [(pass, cell, stg)]\<rparr>)
                                 else st\<lparr>spawned := spawned st @ [(pass, cell, stg)]\<rparr>)
      | None \<Rightarrow> (Some (1, []), add_bad cell (st\<lparr>spawned := spawned st @ [(pass, cell, stg)]\<rparr>)))"
  using assms by (simp add: runCommand_def Let_def)

lemma interactive_every_stage:
  "pushKey options \<Longrightarrow> \<not> konepw options \<Longrightarrow> interactive options (stage_input options stg)"
  by (simp add: interactive_def local_pushKey_def stage_input_def childInput_def)

text \<open>
  Claim C9. On the terminal path of \<^verbatim>\<open>runCommand\<close> (a key push is requested, no shared
  password is in use and there are no input lines), every nonzero status \<open>s\<close> of the
  spawned command is returned with no output lines and puts the host on \<^verbatim>\<open>badCells\<close>,
  and an exception raised by the spawn returns status 1 and puts the host on
  \<^verbatim>\<open>badCells\<close> as well.
\<close>

theorem runCommand_interactive_unreachable:
  assumes "local_pushKey options" and "\<not> konepw options" and "\<not> truthy inputLines"
  shows "(call w pass cell stg = Some s \<longrightarrow> s \<noteq> 0 \<longrightarrow>
            fst (runCommand w options jb pass cell stg ser inputLines st) = Some (s, [])
            \<and> cell \<in> set (badCells (snd (runCommand w options jb pass cell stg ser inputLines st))))
       \<and> (call w pass cell stg = None \<longrightarrow>
            fst (runCommand w options jb pass cell stg ser inputLines st) = Some (1, [])
            \<and> cell \<in> set (badCells (snd (runCommand w options jb pass cell stg ser inputLines st))))"
proof -
  from assms have "interactive options inputLines" by (simp add: interactive_def)
  then show ?thesis by (simp add: runCommand_interactive)
qed

text \<open>The theorem at a host whose \<^verbatim>\<open>ssh\<close> exits 5, and at one whose spawn raises.\<close>

theorem runCommand_interactive_unreachable_witness:
  "local_pushKey (default_options\<lparr>pushKey := True\<rparr>)
   \<and> \<not> konepw (default_options\<lparr>pushKey := True\<rparr>)
   \<and> \<not> truthy (Some [] :: string list option)
   \<and> call denying 0 ''h1'' KeyExchange = Some 5
   \<and> fst (runCommand denying (default_options\<lparr>pushKey := True\<rparr>) (key_job [''h1''])
        0 ''h1'' KeyExchange True (Some []) init_state) = Some (5, [])
   \<and> ''h1'' \<in> set (badCells (snd (runCommand denying (default_options\<lparr>pushKey := True\<rparr>)
        (key_job [''h1'']) 0 ''h1'' KeyExchange True (Some []) init_state)))
   \<and> call raising 0 ''h1'' KeyExchange = None
   \<and> fst (runCommand raising (default_options\<lparr>pushKey := True\<rparr>) (key_job [''h1''])
        0 ''h1'' KeyExchange True (Some []) init_state) = Some (1, [])
   \<and> ''h1'' \<in> set (badCells (snd (runCommand raising (default_options\<lparr>pushKey := True\<rparr>)
        (key_job [''h1'']) 0 ''h1'' KeyExchange True (Some []) init_state)))"
proof -
  let ?o = "default_options\<lparr>pushKey := True\<rparr>"
  have a: "local_pushKey ?o" by (simp add: local_pushKey_def)
  have b: "\<not> konepw ?o" by (simp add: default_options_def)
  have c: "\<not> truthy (Some [] :: string list option)" by simp
  have d: "call denying 0 ''h1'' KeyExchange = Some 5" by (simp add: example_defs)
  have e: "call raising 0 ''h1'' KeyExchange = None" by (simp add: example_defs)
  from runCommand_interactive_unreachable [OF a b c, of denying 0 "''h1''" KeyExchange 5]
    runCommand_interactive_unreachable [OF a b c, of raising 0 "''h1''" KeyExchange]
    a b c d e
  show ?thesis by simp
qed

subsection \<open>The stages of a thread\<close>

lemma run_stage_frame [simp]:
  "status (run_stage w options jb pass cell stg ser inp st) = status st"
  "output_map (run_stage w options jb pass cell stg ser inp st) = output_map st"
  "waitList (run_stage w options jb pass cell stg ser inp st) = waitList st"
  "events (run_stage w options jb pass cell stg ser inp st) = events st"
  "nthreads (run_stage w options jb pass cell stg ser inp st) = nthreads st"
  "killed (run_stage w options jb pass cell stg ser inp st) = killed st"
  "attempted (run_stage w options jb pass cell stg ser inp st) = attempted st @ [stg]"
  "spawned (run_stage w options jb pass cell stg ser inp st) = spawned st @ [(pass, cell, stg)]"
  by (cases "interactive options inp"; cases "timeout_set options \<and> overdue (popen w pass cell stg)";
      simp add: run_stage_def runCommand_popen runCommand_expired runCommand_interactive Let_def
        split: option.splits)+

lemma record_result_frame [simp]:
  "waitList (record_result c st) = waitList st"
  "events (record_result c st) = events st"
  "nthreads (record_result c st) = nthreads st"
  "killed (record_result c st) = killed st"
  "attempted (record_result c st) = attempted st"
  "spawned (record_result c st) = spawned st"
  "badCells (record_result c st) = badCells st"
  "cells_need_retry (record_result c st) = cells_need_retry st"
  "childStatus (record_result c st) = childStatus st"
  "output_truncated (record_result c st) = output_truncated st"
  "exited (record_result c st) = exited st"
  by (simp_all add: record_result_def)

lemma enter_thread_frame [simp]:
  "status (enter_thread st) = status st"
  "output_map (enter_thread st) = output_map st"
  "waitList (enter_thread st) = waitList st"
  "events (enter_thread st) = events st"
  "nthreads (enter_thread st) = nthreads st"
  "killed (enter_thread st) = killed st"
  "spawned (enter_thread st) = spawned st"
  "badCells (enter_thread st) = badCells st"
  "cells_need_retry (enter_thread st) = cells_need_retry st"
  "attempted (enter_thread st) = []"
  "childStatus (enter_thread st) = 0"
  "childOutput (enter_thread st) = []"
  "output_truncated (enter_thread st) = False"
  "exited (enter_thread st) = False"
  by (simp_all add: enter_thread_def)

lemma attempted_key_exchange:
  "attempted (key_exchange w K options jb pass cell st)
     = (if K \<noteq> [] \<and> local_pushKey options then attempted st @ [KeyExchange] else attempted st)"
  by (simp add: key_exchange_def)

lemma attempted_make_dest_dir:
  "attempted (make_dest_dir w K options jb pass cell st)
     = (if \<not> exited st \<and> childStatus st = 0 \<and> dest_is_dir jb
        then attempted st @ [MakeDestDir] else attempted st)"
  by (simp add: make_dest_dir_def)

lemma attempted_copy_files:
  "attempted (copy_files w K options jb pass cell st)
     = (if \<not> exited st \<and> childStatus st = 0 \<and> files jb \<noteq> []
        then attempted st @ [Copy] else attempted st)"
  by (simp add: copy_files_def)

lemma attempted_run_command:
  "attempted (run_command w K options jb pass cell st)
     = (if \<not> exited st \<and> childStatus st = 0 \<and> command_given jb
        then attempted st @ [RunCommand] else attempted st)"
  by (simp add: run_command_def)

lemma attempted_key_drop:
  "attempted (key_drop w K options jb pass cell st)
     = (if \<not> exited st \<and> childStatus st = 0 \<and> K \<noteq> [] \<and> dropKey options
        then attempted st @ [KeyDrop] else attempted st)"
  by (simp add: key_drop_def)

lemma attempted_before_key_drop:
  "KeyDrop \<notin> set (attempted (before_key_drop w K options jb pass cell st))"
  by (simp add: before_key_drop_def attempted_key_exchange attempted_make_dest_dir
      attempted_copy_files attempted_run_command)

text \<open>
  Claim C1, amended. The key removal stage is attempted by a thread exactly when key
  removal is requested, a key is loaded, the thread has not been ended by an expired
  wait, and the status left by the stages before it is zero. A nonzero status of the
  key push, the \<^verbatim>\<open>mkdir\<close>, the copy or the command skips it as it skips every later stage.
\<close>

theorem run_key_drop_iff:
  "KeyDrop \<in> set (attempted (run w K options jb pass cell st))
     = (K \<noteq> [] \<and> dropKey options
        \<and> \<not> exited (before_key_drop w K options jb pass cell st)
        \<and> childStatus (before_key_drop w K options jb pass cell st) = 0)"
  using attempted_before_key_drop [of w K options jb pass cell st]
  by (auto simp: run_def attempted_key_drop)

text \<open>The theorem at a host whose command exits 0, and at one whose command exits 1.\<close>

theorem run_key_drop_iff_witness:
  "KeyDrop \<in> set (attempted (run steady [''ssh-rsa AAAA''] (default_options\<lparr>dropKey := True\<rparr>)
        (command_job [''h1'']) 0 ''h1'' init_state))
   \<and> childStatus (before_key_drop steady [''ssh-rsa AAAA''] (default_options\<lparr>dropKey := True\<rparr>)
        (command_job [''h1'']) 0 ''h1'' init_state) = 0
   \<and> KeyDrop \<notin> set (attempted (run failing [''ssh-rsa AAAA'']
        (default_options\<lparr>dropKey := True\<rparr>) (command_job [''h1'']) 0 ''h1'' init_state))
   \<and> childStatus (before_key_drop failing [''ssh-rsa AAAA''] (default_options\<lparr>dropKey := True\<rparr>)
        (command_job [''h1'']) 0 ''h1'' init_state) = 1"
proof -
  have a: "childStatus (before_key_drop steady [''ssh-rsa AAAA'']
        (default_options\<lparr>dropKey := True\<rparr>) (command_job [''h1'']) 0 ''h1'' init_state) = 0"
    and b: "\<not> exited (before_key_drop steady [''ssh-rsa AAAA'']
        (default_options\<lparr>dropKey := True\<rparr>) (command_job [''h1'']) 0 ''h1'' init_state)"
    and c: "childStatus (before_key_drop failing [''ssh-rsa AAAA'']
        (default_options\<lparr>dropKey := True\<rparr>) (command_job [''h1'']) 0 ''h1'' init_state) = 1"
    by (simp_all add: example_defs thread_defs Let_def)
  have d: "dropKey (default_options\<lparr>dropKey := True\<rparr>)" by simp
  from run_key_drop_iff [of steady "[''ssh-rsa AAAA'']" "default_options\<lparr>dropKey := True\<rparr>"
      "command_job [''h1'']" 0 "''h1''" init_state]
    run_key_drop_iff [of failing "[''ssh-rsa AAAA'']" "default_options\<lparr>dropKey := True\<rparr>"
      "command_job [''h1'']" 0 "''h1''" init_state]
    a b c d
  show ?thesis by simp
qed

text \<open>
  Claim C1 as stated fails: with key removal requested and a key loaded, a command
  that exits 1 is the only stage attempted, and the key removal is not.
\<close>

theorem key_drop_skipped_after_failure:
  "dropKey (default_options\<lparr>dropKey := True\<rparr>)
   \<and> attempted (run failing [''ssh-rsa AAAA''] (default_options\<lparr>dropKey := True\<rparr>)
        (command_job [''h1'']) 0 ''h1'' init_state) = [RunCommand]
   \<and> map_of (status (run failing [''ssh-rsa AAAA''] (default_options\<lparr>dropKey := True\<rparr>)
        (command_job [''h1'']) 0 ''h1'' init_state)) ''h1'' = Some 1
   \<and> KeyDrop \<notin> set (attempted (run failing [''ssh-rsa AAAA'']
        (default_options\<lparr>dropKey := True\<rparr>) (command_job [''h1'']) 0 ''h1'' init_state))"
  by (simp add: example_defs thread_defs Let_def)

subsection \<open>Truncated output\<close>

lemma not_serialize_not_interactive:
  "\<not> serialize options \<Longrightarrow> \<not> interactive options inp"
  by (auto simp: serialize_def interactive_def local_pushKey_def)

lemma readNLines_loop_truncates:
  "length r > nat (mx - i) \<Longrightarrow>
   readNLines_loop mx False i out shown r
     = \<lparr>outputLines = [], displayed = shown @ [out @ take (nat (mx - i) + 1) r],
        truncated = True, unread = drop (nat (mx - i) + 1) r\<rparr>"
proof (induction r arbitrary: i out)
  case Nil
  then show ?case by simp
next
  case (Cons l r)
  show ?case
  proof (cases "i + 1 > mx")
    case True
    then have "nat (mx - i) = 0" by simp
    with True show ?thesis by simp
  next
    case False
    then have n: "nat (mx - i) = Suc (nat (mx - (i + 1)))" by simp
    with Cons.prems have "length r > nat (mx - (i + 1))" by simp
    from Cons.IH [OF this, of "out @ [l]"] False show ?thesis
      by (simp add: n)
  qed
qed

lemma readNLines_loop_keeps:
  "length r \<le> nat (mx - i) \<Longrightarrow>
   readNLines_loop mx dc i out shown r
     = \<lparr>outputLines = out @ r, displayed = shown, truncated = False, unread = []\<rparr>"
proof (induction r arbitrary: i out)
  case Nil
  then show ?case by simp
next
  case (Cons l r)
  from Cons.prems have a: "\<not> i + 1 > mx" by auto
  then have n: "nat (mx - i) = Suc (nat (mx - (i + 1)))" by simp
  with Cons.prems have "length r \<le> nat (mx - (i + 1))" by simp
  from Cons.IH [OF this, of "out @ [l]"] a show ?case by simp
qed

lemma readNLines_loop_chunks:
  "\<not> truncated (readNLines_loop mx True i out shown r)"
  by (induction r arbitrary: i out shown) auto

lemma readNLines_truncates:
  assumes "\<not> ser" and "length (job_cells jb) \<noteq> 1" and "length r > nat (maxLines options)"
  shows "readNLines options jb r ser
     = \<lparr>outputLines = [], displayed = [take (nat (maxLines options) + 1) r],
        truncated = True, unread = drop (nat (maxLines options) + 1) r\<rparr>"
  using assms readNLines_loop_truncates [of "maxLines options" 0 r "[]" "[]"]
  by (simp add: readNLines_def)

lemma readNLines_truncated_iff:
  "truncated (readNLines options jb r ser)
     = (\<not> ser \<and> length (job_cells jb) \<noteq> 1 \<and> length r > nat (maxLines options))"
proof (cases "ser \<or> length (job_cells jb) = 1")
  case True
  then show ?thesis by (auto simp: readNLines_def readNLines_loop_chunks)
next
  case False
  show ?thesis
  proof (cases "length r > nat (maxLines options)")
    case True
    with False show ?thesis by (simp add: readNLines_truncates)
  next
    case False
    then have "length r \<le> nat (maxLines options - 0)" by simp
    then show ?thesis using False by (simp add: readNLines_def readNLines_loop_keeps)
  qed
qed

lemma run_stage_truncating:
  assumes "\<not> interactive options inp"
    and "\<not> (timeout_set options \<and> overdue (popen w pass cell stg))"
    and "\<not> ser" and "length (job_cells jb) \<noteq> 1"
    and "length (stdout (popen w pass cell stg)) > nat (maxLines options)"
  shows "output_truncated (run_stage w options jb pass cell stg ser inp st)"
    and "childStatus (run_stage w options jb pass cell stg ser inp st) = 1"
    and "exited (run_stage w options jb pass cell stg ser inp st) = exited st"
  using assms
  by (simp_all add: run_stage_def runCommand_popen Let_def readNLines_truncates)

lemma stage_skipped:
  assumes "childStatus st \<noteq> 0"
  shows "make_dest_dir w K options jb pass cell st = st"
    and "copy_files w K options jb pass cell st = st"
    and "run_command w K options jb pass cell st = st"
    and "key_drop w K options jb pass cell st = st"
  using assms
  by (simp_all add: make_dest_dir_def copy_files_def run_command_def key_drop_def)

lemma record_result_status:
  "\<not> exited st \<Longrightarrow> map_of (status (record_result cell st)) cell = Some (childStatus st)"
  by (simp add: record_result_def update_conv')

lemma killed_run [simp]: "killed (run w K options jb pass cell st) = killed st"
  by (simp add: run_def before_key_drop_def key_drop_def run_command_def copy_files_def
      make_dest_dir_def key_exchange_def)

text \<open>
  Claim C6, amended. In a pass without serialization over a host list that does not have exactly one
  host, let a thread attempt a stage other than the key push, let the wait on
  its subprocess not expire, and let the subprocess print more than \<^verbatim>\<open>maxLines\<close> lines
  (at least one line when \<^verbatim>\<open>maxLines\<close> is negative). Then the reading stops after line
  \<^verbatim>\<open>maxLines + 1\<close> and leaves the rest unread, the thread is marked truncated, and the
  status it records for the host is 1. The subprocess has exited before the lines are
  counted, so no signal is sent to it.
\<close>

theorem run_truncated_output:
  assumes ns: "\<not> serialize options" and nc: "length (job_cells jb) \<noteq> 1"
    and att: "stg \<in> set (attempted (run w K options jb pass cell st))"
    and nk: "stg \<noteq> KeyExchange"
    and ne: "\<not> (timeout_set options \<and> overdue (popen w pass cell stg))"
    and len: "length (stdout (popen w pass cell stg)) > nat (maxLines options)"
  shows "truncated (readNLines options jb (stdout (popen w pass cell stg)) (serialize options))
     \<and> unread (readNLines options jb (stdout (popen w pass cell stg)) (serialize options))
         = drop (nat (maxLines options) + 1) (stdout (popen w pass cell stg))
     \<and> output_truncated (run w K options jb pass cell st)
     \<and> map_of (status (run w K options jb pass cell st)) cell = Some 1
     \<and> poll (popen w pass cell stg) \<noteq> None
     \<and> killed (run w K options jb pass cell st) = killed st"
proof -
  let ?s1 = "key_exchange w K options jb pass cell (enter_thread st)"
  let ?s2 = "make_dest_dir w K options jb pass cell ?s1"
  let ?s3 = "copy_files w K options jb pass cell ?s2"
  let ?s4 = "run_command w K options jb pass cell ?s3"
  let ?s5 = "key_drop w K options jb pass cell ?s4"
  let ?T = "\<lambda>s. output_truncated s \<and> childStatus s = 1 \<and> \<not> exited s"
  have run: "run w K options jb pass cell st = record_result cell ?s5"
    by (simp add: run_def before_key_drop_def)
  have ni: "\<not> interactive options inp" for inp
    using ns by (rule not_serialize_not_interactive)
  have stage: "\<not> exited s \<Longrightarrow> ?T (run_stage w options jb pass cell stg (serialize options) None s)"
    for s
    using run_stage_truncating [OF ni ne ns nc len] by simp
  have att5: "stg \<in> set (attempted ?s5)" using att by (simp add: run)
  have "?T ?s5"
  proof (cases stg)
    case KeyExchange
    with nk show ?thesis by simp
  next
    case MakeDestDir
    with att5 have g: "\<not> exited ?s1 \<and> childStatus ?s1 = 0 \<and> dest_is_dir jb"
      by (auto simp: attempted_key_exchange attempted_make_dest_dir attempted_copy_files
          attempted_run_command attempted_key_drop split: if_splits)
    then have "?s2 = run_stage w options jb pass cell stg (serialize options) None ?s1"
      by (simp add: make_dest_dir_def MakeDestDir)
    with stage [of ?s1] g have t: "?T ?s2" by simp
    then have "?s5 = ?s2" by (simp add: stage_skipped)
    with t show ?thesis by simp
  next
    case Copy
    with att5 have g: "\<not> exited ?s2 \<and> childStatus ?s2 = 0 \<and> files jb \<noteq> []"
      by (auto simp: attempted_key_exchange attempted_make_dest_dir attempted_copy_files
          attempted_run_command attempted_key_drop split: if_splits)
    then have "?s3 = run_stage w options jb pass cell stg (serialize options) None ?s2"
      by (simp add: copy_files_def Copy)
    with stage [of ?s2] g have t: "?T ?s3" by simp
    then have "?s5 = ?s3" by (simp add: stage_skipped)
    with t show ?thesis by simp
  next
    case RunCommand
    with att5 have g: "\<not> exited ?s3 \<and> childStatus ?s3 = 0 \<and> command_given jb"
      by (auto simp: attempted_key_exchange attempted_make_dest_dir attempted_copy_files
          attempted_run_command attempted_key_drop split: if_splits)
    then have "?s4 = run_stage w options jb pass cell stg (serialize options) None ?s3"
      by (simp add: run_command_def RunCommand)
    with stage [of ?s3] g have t: "?T ?s4" by simp
    then have "?s5 = ?s4" by (simp add: stage_skipped)
    with t show ?thesis by simp
  next
    case KeyDrop
    with att5 have g: "\<not> exited ?s4 \<and> childStatus ?s4 = 0 \<and> K \<noteq> [] \<and> dropKey options"
      by (auto simp: attempted_key_exchange attempted_make_dest_dir attempted_copy_files
          attempted_run_command attempted_key_drop split: if_splits)
    then have "?s5 = run_stage w options jb pass cell stg (serialize options) None ?s4"
      by (simp add: key_drop_def KeyDrop)
    with stage [of ?s4] g show ?thesis by simp
  qed
  then have "output_truncated (run w K options jb pass cell st)"
    and "map_of (status (run w K options jb pass cell st)) cell = Some 1"
    by (simp_all add: run record_result_status)
  moreover have "truncated (readNLines options jb (stdout (popen w pass cell stg)) (serialize options))"
    and "unread (readNLines options jb (stdout (popen w pass cell stg)) (serialize options))
         = drop (nat (maxLines options) + 1) (stdout (popen w pass cell stg))"
    using ns nc len by (simp_all add: readNLines_truncates)
  ultimately show ?thesis by (simp add: poll_def)
qed

text \<open>The theorem at two hosts, \<^verbatim>\<open>maxLines = 1\<close> and a command that prints three lines.\<close>

theorem run_truncated_output_witness:
  "\<not> serialize (default_options\<lparr>maxLines := 1\<rparr>)
   \<and> length (job_cells (command_job [''h1'', ''h2''])) \<noteq> 1
   \<and> attempted (run chatty [] (default_options\<lparr>maxLines := 1\<rparr>) (command_job [''h1'', ''h2''])
        0 ''h1'' init_state) = [RunCommand]
   \<and> length (stdout (popen chatty 0 ''h1'' RunCommand)) > nat (maxLines (default_options\<lparr>maxLines := 1\<rparr>))
   \<and> unread (readNLines (default_options\<lparr>maxLines := 1\<rparr>) (command_job [''h1'', ''h2''])
        (stdout (popen chatty 0 ''h1'' RunCommand)) (serialize (default_options\<lparr>maxLines := 1\<rparr>)))
       = [''c'']
   \<and> output_truncated (run chatty [] (default_options\<lparr>maxLines := 1\<rparr>)
        (command_job [''h1'', ''h2'']) 0 ''h1'' init_state)
   \<and> map_of (status (run chatty [] (default_options\<lparr>maxLines := 1\<rparr>)
        (command_job [''h1'', ''h2'']) 0 ''h1'' init_state)) ''h1'' = Some 1"
proof -
  let ?o = "default_options\<lparr>maxLines := 1\<rparr>"
  let ?jb = "command_job [''h1'', ''h2'']"
  have ns: "\<not> serialize ?o" by (simp add: serialize_def default_options_def)
  have nc: "length (job_cells ?jb) \<noteq> 1" by (simp add: command_job_def)
  have at: "attempted (run chatty [] ?o ?jb 0 ''h1'' init_state) = [RunCommand]"
    by (simp add: example_defs thread_defs Let_def)
  then have att: "RunCommand \<in> set (attempted (run chatty [] ?o ?jb 0 ''h1'' init_state))" by simp
  have ne: "\<not> (timeout_set ?o \<and> overdue (popen chatty 0 ''h1'' RunCommand))"
    by (simp add: example_defs)
  have len: "length (stdout (popen chatty 0 ''h1'' RunCommand)) > nat (maxLines ?o)"
    by (simp add: example_defs)
  have dr: "drop (nat (maxLines ?o) + 1) (stdout (popen chatty 0 ''h1'' RunCommand)) = [''c'']"
    by (simp add: example_defs)
  from run_truncated_output [OF ns nc att _ ne len] ns nc at len dr show ?thesis by simp
qed

text \<open>
  Claim C6 as stated fails at the key push with one shared password: \<^verbatim>\<open>run\<close> passes
  \<^verbatim>\<open>True\<close> for \<^verbatim>\<open>serialize\<close> there, so with two hosts, no serialization and
  \<^verbatim>\<open>maxLines = 1\<close>, a key push that prints two lines is read in chunks, is not marked
  truncated and ends with status 0.
\<close>

theorem key_exchange_not_truncated:
  "\<not> serialize (default_options\<lparr>konepw := True, maxLines := 1\<rparr>)
   \<and> length (job_cells (key_job [''h1'', ''h2''])) = 2
   \<and> int (length (stdout (popen talking 0 ''h1'' KeyExchange)))
       > maxLines (default_options\<lparr>konepw := True, maxLines := 1\<rparr>)
   \<and> attempted (run talking [''ssh-rsa AAAA''] (default_options\<lparr>konepw := True, maxLines := 1\<rparr>)
        (key_job [''h1'', ''h2'']) 0 ''h1'' init_state) = [KeyExchange]
   \<and> \<not> output_truncated (run talking [''ssh-rsa AAAA'']
        (default_options\<lparr>konepw := True, maxLines := 1\<rparr>) (key_job [''h1'', ''h2'']) 0 ''h1''
        init_state)
   \<and> map_of (status (run talking [''ssh-rsa AAAA'']
        (default_options\<lparr>konepw := True, maxLines := 1\<rparr>) (key_job [''h1'', ''h2'']) 0 ''h1''
        init_state)) ''h1'' = Some 0"
  by (simp add: example_defs thread_defs Let_def)

subsection \<open>The unreachable hosts\<close>

lemma marks_kept_cong:
  "spawned st' = spawned st \<Longrightarrow> badCells st' = badCells st \<Longrightarrow>
   marks_kept w options jb st' = marks_kept w options jb st"
  by (simp add: marks_kept_def)

lemma marks_kept_update [simp]:
  "marks_kept w options jb (st\<lparr>events := es\<rparr>) = marks_kept w options jb st"
  "marks_kept w options jb (st\<lparr>waitList := wl\<rparr>) = marks_kept w options jb st"
  "marks_kept w options jb (st\<lparr>nthreads := n\<rparr>) = marks_kept w options jb st"
  by (simp_all add: marks_kept_def)

lemma badCells_run_stage:
  "set (badCells (run_stage w options jb pass cell stg ser inp st))
     = (if (if interactive options inp then call w pass cell stg \<noteq> Some 0
            else (\<not> (timeout_set options \<and> overdue (popen w pass cell stg))
                  \<and> returncode (popen w pass cell stg) = 255
                  \<and> \<not> retry_if_needed options (banner_or_err (popen w pass cell stg))
                        (outputLines (readNLines options jb (stdout (popen w pass cell stg)) ser))))
        then insert cell (set (badCells st)) else set (badCells st))"
  by (cases "interactive options inp"; cases "timeout_set options \<and> overdue (popen w pass cell stg)")
    (auto simp: run_stage_def runCommand_popen runCommand_expired runCommand_interactive Let_def
      classify_badCells split: option.splits)

lemma marks_kept_run_stage:
  assumes "marks_kept w options jb st"
    and "ser = stage_serialize options stg" and "inp = stage_input options stg"
  shows "marks_kept w options jb (run_stage w options jb pass cell stg ser inp st)"
  using assms
  by (auto simp: marks_kept_def badCells_run_stage bad_outcome_def list_all_iff)

lemma marks_kept_stages:
  assumes "marks_kept w options jb st"
  shows "marks_kept w options jb (key_exchange w K options jb pass cell st)"
    and "marks_kept w options jb (make_dest_dir w K options jb pass cell st)"
    and "marks_kept w options jb (copy_files w K options jb pass cell st)"
    and "marks_kept w options jb (run_command w K options jb pass cell st)"
    and "marks_kept w options jb (key_drop w K options jb pass cell st)"
  using assms
  by (simp_all add: key_exchange_def make_dest_dir_def copy_files_def run_command_def
      key_drop_def marks_kept_run_stage stage_serialize_def stage_input_def)

lemma marks_kept_run:
  assumes "marks_kept w options jb st"
  shows "marks_kept w options jb (run w K options jb pass cell st)"
proof -
  have "marks_kept w options jb (enter_thread st)"
    using assms by (simp add: marks_kept_cong [of "enter_thread st" st])
  then have "marks_kept w options jb
      (key_drop w K options jb pass cell (before_key_drop w K options jb pass cell st))"
    unfolding before_key_drop_def by (intro marks_kept_stages)
  then show ?thesis
    by (simp add: run_def marks_kept_cong [of "record_result cell s" s for s])
qed

lemma marks_kept_start_threads:
  "marks_kept w options jb st \<Longrightarrow>
   marks_kept w options jb (start_threads w K options jb pass all_cells st)"
proof (induction all_cells arbitrary: st)
  case Nil
  then show ?case by simp
next
  case (Cons cell all_cells)
  let ?st0 = "st\<lparr>nthreads := Suc (nthreads st), events := events st @ [Start (nthreads st)]\<rparr>"
  let ?st1 = "run w K options jb pass cell ?st0"
  have "marks_kept w options jb ?st0"
    using Cons.prems by simp
  then have 1: "marks_kept w options jb ?st1" by (rule marks_kept_run)
  show ?case
  proof (cases "serialize options")
    case True
    have "marks_kept w options jb (?st1\<lparr>events := events ?st1 @ [Join (nthreads st)]\<rparr>)"
      using 1 by simp
    from Cons.IH [OF this] True show ?thesis by (simp add: Let_def)
  next
    case False
    have "marks_kept w options jb (?st1\<lparr>waitList := waitList ?st1 @ [nthreads st]\<rparr>)"
      using 1 by simp
    from Cons.IH [OF this] False show ?thesis by (simp add: Let_def)
  qed
qed

lemma marks_kept_run_workThread:
  "marks_kept w options jb st \<Longrightarrow>
   marks_kept w options jb (run_workThread w K options jb pass all_cells st)"
  using marks_kept_start_threads [of w options jb st K pass all_cells]
  by (simp add: run_workThread_def Let_def)

lemma marks_kept_copyAndExecute:
  assumes "copyAndExecute_state ev w K jb options = Inr st"
  shows "marks_kept w options jb st"
proof -
  have "marks_kept w options jb init_state" by (simp add: marks_kept_def init_state_def)
  then have 0: "marks_kept w options jb (run_workThread w K options jb 0 (job_cells jb) init_state)"
    by (rule marks_kept_run_workThread)
  then have "marks_kept w options jb (run_workThread w K options jb 1 cs
      (run_workThread w K options jb 0 (job_cells jb) init_state))" for cs
    by (rule marks_kept_run_workThread)
  with 0 assms show ?thesis
    by (auto simp: copyAndExecute_state_def Let_def split: if_splits)
qed

lemma bad_outcome_unreachable:
  assumes "copyAndExecute_state ev w K jb options = Inr st"
    and "(pass, cell, stg) \<in> set (spawned st)"
    and "bad_outcome w options jb pass cell stg"
  shows "cell \<in> set (badCells st)"
  using marks_kept_copyAndExecute [OF assms(1)] assms(2,3)
  by (auto simp: marks_kept_def list_all_iff)

text \<open>
  Claim C2, amended. Let a pass of \<^verbatim>\<open>copyAndExecute\<close> spawn a subprocess for a host, and
  let \<^verbatim>\<open>runCommand\<close> see it exit with status 255 (on the \<^verbatim>\<open>Popen\<close> path the wait did not
  expire). Unless one shared password is in use and the captured standard error or
  output holds the warning of an offending host key, the host is in the \<^verbatim>\<open>badCells\<close>
  that \<^verbatim>\<open>copyAndExecute\<close> returns.
\<close>

theorem exit_255_unreachable:
  assumes "copyAndExecute_state ev w K jb options = Inr st"
    and "(pass, cell, stg) \<in> set (spawned st)"
    and "if interactive options (stage_input options stg)
         then call w pass cell stg = Some 255
         else returncode (popen w pass cell stg) = 255
              \<and> \<not> (timeout_set options \<and> overdue (popen w pass cell stg))"
    and "\<not> retry_if_needed options (banner_or_err (popen w pass cell stg))
           (outputLines (readNLines options jb (stdout (popen w pass cell stg))
              (stage_serialize options stg)))"
  shows "cell \<in> set (badCells st)
       \<and> copyAndExecute ev w K jb options = Inr (status st, output_map st, badCells st)"
proof -
  from assms(3,4) have "bad_outcome w options jb pass cell stg"
    by (auto simp: bad_outcome_def split: if_splits)
  with assms(1,2) have "cell \<in> set (badCells st)" by (rule bad_outcome_unreachable)
  with assms(1) show ?thesis by (simp add: copyAndExecute_def)
qed

text \<open>The theorem at two hosts whose \<^verbatim>\<open>ssh\<close> exits 255 under the default options.\<close>

theorem exit_255_unreachable_witness:
  "copyAndExecute_state plain_env refusing [] (command_job [''h1'', ''h2'']) default_options
     = Inr (init_state\<lparr>status := [(''h1'', 255), (''h2'', 255)],
              output_map := [(''h1'', []), (''h2'', [])], badCells := [''h1'', ''h2''],
              waitList := [0, 1], events := [Start 0, Start 1, Join 0, Join 1], nthreads := 2,
              spawned := [(0, ''h1'', RunCommand), (0, ''h2'', RunCommand)],
              childStatus := 255, attempted := [RunCommand]\<rparr>)
   \<and> returncode (popen refusing 0 ''h2'' RunCommand) = 255
   \<and> copyAndExecute plain_env refusing [] (command_job [''h1'', ''h2'']) default_options
     = Inr ([(''h1'', 255), (''h2'', 255)], [(''h1'', []), (''h2'', [])], [''h1'', ''h2''])"
proof -
  let ?st = "init_state\<lparr>status := [(''h1'', 255), (''h2'', 255)],
              output_map := [(''h1'', []), (''h2'', [])], badCells := [''h1'', ''h2''],
              waitList := [0, 1], events := [Start 0, Start 1, Join 0, Join 1], nthreads := 2,
              spawned := [(0, ''h1'', RunCommand), (0, ''h2'', RunCommand)],
              childStatus := 255, attempted := [RunCommand]\<rparr>"
  have a: "copyAndExecute_state plain_env refusing [] (command_job [''h1'', ''h2'']) default_options
     = Inr ?st"
    by (simp add: example_defs thread_defs pass_defs Let_def)
  have b: "(0, ''h2'', RunCommand) \<in> set (spawned ?st)" by simp
  have c: "if interactive default_options (stage_input default_options RunCommand)
         then call refusing 0 ''h2'' RunCommand = Some 255
         else returncode (popen refusing 0 ''h2'' RunCommand) = 255
              \<and> \<not> (timeout_set default_options \<and> overdue (popen refusing 0 ''h2'' RunCommand))"
    by (simp add: example_defs interactive_def local_pushKey_def timeout_set_def)
  have d: "\<not> retry_if_needed default_options (banner_or_err (popen refusing 0 ''h2'' RunCommand))
           (outputLines (readNLines default_options (command_job [''h1'', ''h2''])
              (stdout (popen refusing 0 ''h2'' RunCommand))
              (stage_serialize default_options RunCommand)))"
    by (simp add: example_defs retry_if_needed_def)
  from exit_255_unreachable [OF a b c d] a c show ?thesis
    by (simp add: example_defs init_state_def)
qed

text \<open>
  Claim C2 as stated fails: with one shared password, a key push that exits 255 and
  warns of an offending key puts the host on the retry list; the host cannot be
  retried here, and \<^verbatim>\<open>copyAndExecute\<close> returns status 255 for it and an empty
  \<^verbatim>\<open>badCells\<close>.
\<close>

theorem offending_255_not_unreachable:
  "konepw (default_options\<lparr>konepw := True\<rparr>)
   \<and> returncode (popen offended 0 ''h1'' KeyExchange) = 255
   \<and> (case copyAndExecute_state plain_env offended [''ssh-rsa AAAA''] (key_job [''h1''])
              (default_options\<lparr>konepw := True\<rparr>) of
         Inl e \<Rightarrow> False
       | Inr st \<Rightarrow> spawned st = [(0, ''h1'', KeyExchange)] \<and> status st = [(''h1'', 255)]
                  \<and> cells_need_retry st = [''h1''] \<and> ''h1'' \<notin> set (badCells st))
   \<and> copyAndExecute plain_env offended [''ssh-rsa AAAA''] (key_job [''h1''])
        (default_options\<lparr>konepw := True\<rparr>) = Inr ([(''h1'', 255)], [(''h1'', [])], [])"
  by (simp add: example_defs thread_defs pass_defs Let_def)

subsection \<open>Serialized execution\<close>

lemma stage_frame [simp]:
  "events (key_exchange w K options jb pass cell st) = events st"
  "events (make_dest_dir w K options jb pass cell st) = events st"
  "events (copy_files w K options jb pass cell st) = events st"
  "events (run_command w K options jb pass cell st) = events st"
  "events (key_drop w K options jb pass cell st) = events st"
  "waitList (key_exchange w K options jb pass cell st) = waitList st"
  "waitList (make_dest_dir w K options jb pass cell st) = waitList st"
  "waitList (copy_files w K options jb pass cell st) = waitList st"
  "waitList (run_command w K options jb pass cell st) = waitList st"
  "waitList (key_drop w K options jb pass cell st) = waitList st"
  "nthreads (key_exchange w K options jb pass cell st) = nthreads st"
  "nthreads (make_dest_dir w K options jb pass cell st) = nthreads st"
  "nthreads (copy_files w K options jb pass cell st) = nthreads st"
  "nthreads (run_command w K options jb pass cell st) = nthreads st"
  "nthreads (key_drop w K options jb pass cell st) = nthreads st"
  by (simp_all add: key_exchange_def make_dest_dir_def copy_files_def run_command_def
      key_drop_def)

lemma run_frame [simp]:
  "events (run w K options jb pass cell st) = events st"
  "waitList (run w K options jb pass cell st) = waitList st"
  "nthreads (run w K options jb pass cell st) = nthreads st"
  by (simp_all add: run_def before_key_drop_def)

lemma live_after_append:
  "live_after live (es @ es') = live_after (live_after live es) es'"
  by (induction live es rule: live_after.induct) simp_all

lemma max_live_ge: "length live \<le> max_live live es"
proof (cases es)
  case Nil
  then show ?thesis by simp
next
  case (Cons e es')
  then show ?thesis by (cases e) simp_all
qed

lemma max_live_append:
  "max_live live (es @ es') = max (max_live live es) (max_live (live_after live es) es')"
proof (induction live es rule: max_live.induct)
  case (1 live)
  have "length live \<le> max_live live es'" by (rule max_live_ge)
  then show ?case by simp
next
  case (2 live t es)
  then show ?case by simp
next
  case (3 live t es)
  then show ?case by simp
qed

lemma serial_start_threads:
  assumes "serialize options"
    and "waitList st = []" and "live_after [] (events st) = []"
    and "max_live [] (events st) \<le> 1"
  shows "waitList (start_threads w K options jb pass all_cells st) = []
       \<and> live_after [] (events (start_threads w K options jb pass all_cells st)) = []
       \<and> max_live [] (events (start_threads w K options jb pass all_cells st)) \<le> 1"
  using assms(2-)
proof (induction all_cells arbitrary: st)
  case Nil
  then show ?case by simp
next
  case (Cons cell all_cells)
  let ?t = "nthreads st"
  let ?st1 = "run w K options jb pass cell
      (st\<lparr>nthreads := Suc ?t, events := events st @ [Start ?t]\<rparr>)"
  let ?st2 = "?st1\<lparr>events := events ?st1 @ [Join ?t]\<rparr>"
  have e: "events ?st2 = events st @ [Start ?t, Join ?t]" by simp
  have "waitList ?st2 = []" using Cons.prems by simp
  moreover have "live_after [] (events ?st2) = []"
    using Cons.prems by (simp only: e live_after_append) simp
  moreover have "max_live [] (events ?st2) \<le> 1"
    using Cons.prems by (simp only: e max_live_append) simp
  ultimately have
    "waitList (start_threads w K options jb pass all_cells ?st2) = []
       \<and> live_after [] (events (start_threads w K options jb pass all_cells ?st2)) = []
       \<and> max_live [] (events (start_threads w K options jb pass all_cells ?st2)) \<le> 1"
    by (rule Cons.IH)
  then show ?case using assms(1) by (simp add: Let_def)
qed

lemma serial_run_workThread:
  assumes "serialize options"
    and "waitList st = []" and "live_after [] (events st) = []"
    and "max_live [] (events st) \<le> 1"
  shows "waitList (run_workThread w K options jb pass all_cells st) = []
       \<and> live_after [] (events (run_workThread w K options jb pass all_cells st)) = []
       \<and> max_live [] (events (run_workThread w K options jb pass all_cells st)) \<le> 1"
  using serial_start_threads [OF assms, of w K jb pass all_cells]
  by (simp add: run_workThread_def Let_def)

lemma serial_copyAndExecute:
  assumes "serialize options" and "copyAndExecute_state ev w K jb options = Inr st"
  shows "max_live [] (events st) \<le> 1"
proof -
  let ?st0 = "run_workThread w K options jb 0 (job_cells jb) init_state"
  have 0: "waitList ?st0 = [] \<and> live_after [] (events ?st0) = [] \<and> max_live [] (events ?st0) \<le> 1"
    by (rule serial_run_workThread [OF assms(1)]) (simp_all add: init_state_def)
  then have 1: "max_live [] (events (run_workThread w K options jb 1 cs ?st0)) \<le> 1" for cs
    using serial_run_workThread [OF assms(1), of ?st0 w K jb 1 cs] by simp
  from assms(2) 0 1 show ?thesis
    by (auto simp: copyAndExecute_state_def Let_def split: if_splits)
qed

text \<open>
  Claim C3, amended. With \<^verbatim>\<open>-k\<close> (\<^verbatim>\<open>options.pushKey\<close>) the derived \<^verbatim>\<open>serialize\<close> flag is
  set and at no point of a call of \<^verbatim>\<open>copyAndExecute\<close> is more than one thread started
  and not yet joined. Without \<^verbatim>\<open>-k\<close>, and so with \<^verbatim>\<open>--key-with-one-password\<close> alone,
  the flag is the \<^verbatim>\<open>--serial\<close> option.
\<close>

theorem push_key_serialized:
  "(pushKey options \<longrightarrow>
      serialize options
      \<and> (\<forall>st. copyAndExecute_state ev w K jb options = Inr st \<longrightarrow> max_live [] (events st) \<le> 1))
   \<and> (\<not> pushKey options \<longrightarrow> serialize options = serializeOps options)"
  using serial_copyAndExecute [of options ev w K jb]
  by (auto simp: serialize_def)

text \<open>The theorem at two hosts with \<^verbatim>\<open>-k\<close>, and at the options with one shared password.\<close>

theorem push_key_serialized_witness:
  "pushKey (default_options\<lparr>pushKey := True\<rparr>)
   \<and> serialize (default_options\<lparr>pushKey := True\<rparr>)
   \<and> (\<exists>st. copyAndExecute_state plain_env steady [''ssh-rsa AAAA''] (key_job [''h1'', ''h2''])
              (default_options\<lparr>pushKey := True\<rparr>) = Inr st
            \<and> events st = [Start 0, Join 0, Start 1, Join 1]
            \<and> max_live [] (events st) \<le> 1)
   \<and> \<not> pushKey (default_options\<lparr>konepw := True\<rparr>)
   \<and> serialize (default_options\<lparr>konepw := True\<rparr>)
       = serializeOps (default_options\<lparr>konepw := True\<rparr>)"
proof -
  let ?o = "default_options\<lparr>pushKey := True\<rparr>"
  obtain st where a: "copyAndExecute_state plain_env steady [''ssh-rsa AAAA'']
      (key_job [''h1'', ''h2'']) ?o = Inr st"
    and e: "events st = [Start 0, Join 0, Start 1, Join 1]"
    by (simp add: example_defs thread_defs pass_defs Let_def)
  have p: "pushKey ?o" by simp
  have q: "\<not> pushKey (default_options\<lparr>konepw := True\<rparr>)" by (simp add: default_options_def)
  from push_key_serialized [of ?o plain_env steady "[''ssh-rsa AAAA'']" "key_job [''h1'', ''h2'']"] p a
  have "serialize ?o" and "max_live [] (events st) \<le> 1" by blast+
  moreover from push_key_serialized [of "default_options\<lparr>konepw := True\<rparr>"] q
  have "serialize (default_options\<lparr>konepw := True\<rparr>)
       = serializeOps (default_options\<lparr>konepw := True\<rparr>)" by blast
  ultimately show ?thesis using a e p q by blast
qed

text \<open>
  Claim C3 as stated fails: with \<^verbatim>\<open>--key-with-one-password\<close> alone the flag is not set,
  and both threads of a pass over two hosts are started before either is joined.
\<close>

theorem one_password_not_serialized:
  "konepw (default_options\<lparr>konepw := True\<rparr>)
   \<and> \<not> serialize (default_options\<lparr>konepw := True\<rparr>)
   \<and> (case copyAndExecute_state plain_env steady [''ssh-rsa AAAA''] (key_job [''h1'', ''h2''])
              (default_options\<lparr>konepw := True\<rparr>) of
         Inl e \<Rightarrow> False
       | Inr st \<Rightarrow> events st = [Start 0, Start 1, Join 0, Join 1]
                  \<and> max_live [] (events st) = 2)"
  by (simp add: example_defs thread_defs pass_defs Let_def)

subsection \<open>The exit code\<close>

text \<open>
  One round of the batch loop leaves \<^verbatim>\<open>returnValue\<close> at 0 exactly when it was 0, no host
  is on \<^verbatim>\<open>badCells\<close> and no status is above 0: a negative status counts as success.
\<close>

lemma fold_max_ge: "(r :: int) \<le> fold max vs r"
  by (induction vs arbitrary: r) (auto intro: order_trans [OF max.cobounded2])

lemma fold_max_zero_iff:
  "0 \<le> returnValue \<Longrightarrow>
   (fold max (map snd statusMap) (if length bad > 0 then 1 else returnValue) = (0 :: int))
     = (bad = [] \<and> returnValue = 0 \<and> list_all (\<lambda>(cell, s). s \<le> 0) statusMap)"
proof (induction statusMap arbitrary: returnValue)
  case Nil
  then show ?case by auto
next
  case (Cons a statusMap)
  obtain cell s where a: "a = (cell, s)" by (cases a)
  from Cons.prems have m: "0 \<le> max s returnValue" by simp
  have one: "fold max (map snd statusMap) (max s 1) \<noteq> 0"
    using fold_max_ge [of "max s 1" "map snd statusMap"] by simp
  show ?case
  proof (cases "bad = []")
    case True
    with Cons.IH [OF m] Cons.prems show ?thesis by (auto simp: a max_def)
  next
    case False
    with one show ?thesis by (simp add: a)
  qed
qed

text \<open>
  Claim C5 at the failing input: a timeout of 3 seconds and one host whose subprocess
  does not let \<^verbatim>\<open>communicate\<close> return in time. \<^verbatim>\<open>sys.exit(1)\<close> ends the thread before it
  records a status, \<^verbatim>\<open>copyAndExecute\<close> returns empty dictionaries and an empty
  \<^verbatim>\<open>badCells\<close>, and \<^verbatim>\<open>main\<close> returns 0.
\<close>

theorem local_timeout_records_nothing:
  "timeout_set (default_options\<lparr>cells := Some [''h1''], timeout := Some 3\<rparr>)
   \<and> overdue (popen wedged 0 ''h1'' RunCommand)
   \<and> copyAndExecute plain_env wedged [] (command_job [''h1''])
        (default_options\<lparr>cells := Some [''h1''], timeout := Some 3\<rparr>) = Inr ([], [], [])
   \<and> main plain_env wedged (default_options\<lparr>cells := Some [''h1''], timeout := Some 3\<rparr>)
        [''sleep'', ''10''] = 0"
  by (simp add: example_defs thread_defs pass_defs Let_def main_def main_body_def
      buildCommand_def buildCellList_def group_entries_def cell_entries_def strip_def
      is_space_def auto_batch_def files_ok_def)

text \<open>
  Claim C7 at the failing input: one host whose subprocess is killed by signal 9, so
  that its return code is \<open>- 9\<close>. The status recorded for the host is not zero, and
  \<^verbatim>\<open>main\<close> returns 0.
\<close>

theorem negative_status_exit_zero:
  "copyAndExecute plain_env signalled [] (command_job [''h1''])
        (default_options\<lparr>cells := Some [''h1'']\<rparr>) = Inr ([(''h1'', - 9)], [(''h1'', [])], [])
   \<and> main plain_env signalled (default_options\<lparr>cells := Some [''h1'']\<rparr>) [''true''] = 0"
  by (simp add: example_defs thread_defs pass_defs Let_def main_def main_body_def
      buildCommand_def buildCellList_def group_entries_def cell_entries_def strip_def
      is_space_def auto_batch_def files_ok_def)

end
